theory Spec2Isabelle
  imports Complex_Main "HOL-Library.Sublist" "HOL-Library.Multiset"
begin

section \<open>Data model\<close>

text \<open>
  The \<^verbatim>\<open>User\<close> entity of \<^verbatim>\<open>users/entities/user.entity.ts\<close>, and the \<^verbatim>\<open>Post\<close>
  entity with the fields that the posts service, the seed script and the tests read and
  write. The two classes share field names (\<^verbatim>\<open>id\<close>, \<^verbatim>\<open>createdAt\<close>, ...), and
  \<^verbatim>\<open>id\<close> is a HOL constant, so every field carries its entity as a prefix:
  \<^verbatim>\<open>user.email\<close> is \<open>user_email\<close>, \<^verbatim>\<open>post.authorId\<close> is \<open>post_authorId\<close>.
  Timestamps are integers. The relation fields (\<^verbatim>\<open>user.posts\<close>, \<^verbatim>\<open>post.author\<close>)
  are joins computed at load time, not columns, and no operation below reads them.
  An optional field of an input is an \<open>option\<close>: \<open>None\<close> is the absent field
  (\<^verbatim>\<open>undefined\<close>).
\<close>

datatype UserRole = USER | ADMIN

record User =
  user_id :: string
  user_email :: string
  user_firstName :: string
  user_lastName :: string
  user_password :: string
  user_role :: UserRole
  user_createdAt :: int
  user_updatedAt :: int

record Post =
  post_id :: string
  post_title :: string
  post_content :: string
  post_published :: bool
  post_authorId :: string
  post_createdAt :: int
  post_updatedAt :: int

text \<open>
  The exceptions of \<^verbatim>\<open>@nestjs/common\<close> that the services throw, each with its message.
  The spec calls them NotFound, AlreadyExists (\<open>ConflictException\<close>), Forbidden,
  Unauthorized and InternalFailure.
\<close>

datatype http_error =
    NotFoundException string
  | ConflictException string
  | ForbiddenException string
  | UnauthorizedException string
  | InternalServerErrorException string

text \<open>The two tables behind \<^verbatim>\<open>Repository<User>\<close> and \<^verbatim>\<open>Repository<Post>\<close>.\<close>

record store =
  users :: "User list"
  posts :: "Post list"

record JwtPayload =
  jwt_sub :: string
  jwt_email :: string
  jwt_role :: UserRole

text \<open>
  What the collaborators outside the repository decide during one service call: whether
  the write (\<^verbatim>\<open>save\<close> or \<^verbatim>\<open>remove\<close>) goes through, the uuid and the timestamp the
  database gives a new row, \<^verbatim>\<open>bcrypt.hash(_, 10)\<close>, \<^verbatim>\<open>bcrypt.compare\<close> and
  \<^verbatim>\<open>jwtService.sign(payload, {expiresIn})\<close>.
\<close>

record env =
  persist_ok :: bool
  new_id :: string
  now :: int
  bcrypt_hash :: "string \<Rightarrow> string"
  bcrypt_compare :: "string \<Rightarrow> string \<Rightarrow> bool"
  jwt_sign :: "JwtPayload \<Rightarrow> string option \<Rightarrow> string"

text \<open>JavaScript truthiness of an optional string: \<^verbatim>\<open>undefined\<close> and \<^verbatim>\<open>""\<close> are falsy.\<close>

definition truthy :: "string option \<Rightarrow> bool" where
  "truthy s = (case s of None \<Rightarrow> False | Some v \<Rightarrow> v \<noteq> [])"

text \<open>\<^verbatim>\<open>`Post with ID "${id}" not found`\<close> and its sibling for users.\<close>

definition post_not_found :: "string \<Rightarrow> http_error" where
  "post_not_found i = NotFoundException (''Post with ID '' @ [CHR 0x22] @ i @ [CHR 0x22] @ '' not found'')"

definition user_not_found :: "string \<Rightarrow> http_error" where
  "user_not_found i = NotFoundException (''User with ID '' @ [CHR 0x22] @ i @ [CHR 0x22] @ '' not found'')"

section \<open>The repository contract\<close>

text \<open>
  \<^verbatim>\<open>repository.save(entity)\<close> of a loaded entity rewrites the row with the entity's
  primary key; \<^verbatim>\<open>repository.remove(entity)\<close> deletes it.
\<close>

definition save_post :: "Post \<Rightarrow> Post list \<Rightarrow> Post list" where
  "save_post e rows = map (\<lambda>r. if post_id r = post_id e then e else r) rows"

definition remove_post :: "Post \<Rightarrow> Post list \<Rightarrow> Post list" where
  "remove_post e rows = filter (\<lambda>r. post_id r \<noteq> post_id e) rows"

definition save_user :: "User \<Rightarrow> User list \<Rightarrow> User list" where
  "save_user e rows = map (\<lambda>r. if user_id r = user_id e then e else r) rows"

definition remove_user :: "User \<Rightarrow> User list \<Rightarrow> User list" where
  "remove_user e rows = filter (\<lambda>r. user_id r \<noteq> user_id e) rows"

text \<open>
  \<^verbatim>\<open>repository.findAndCount({where, skip, take, order: {createdAt: 'DESC'}})\<close>: the
  rows that satisfy \<open>where\<close>, newest first, cut to the window \<open>skip\<close>, \<open>take\<close>,
  together with the number of all rows that satisfy \<open>where\<close>. The window is modelled
  for \<open>0 \<le> skip\<close> and \<open>1 \<le> take\<close>, which the DTOs' \<^verbatim>\<open>@Min(1)\<close> on \<^verbatim>\<open>page\<close> and
  \<^verbatim>\<open>limit\<close> guarantee.
\<close>

definition findAndCount ::
  "('a \<Rightarrow> bool) \<Rightarrow> int \<Rightarrow> int \<Rightarrow> ('a \<Rightarrow> int) \<Rightarrow> 'a list \<Rightarrow> 'a list \<times> int" where
  "findAndCount wh skip tk createdAt rows =
     (let matching = sort_key (\<lambda>r. - createdAt r) (filter wh rows)
      in (take (nat tk) (drop (nat skip) matching), int (length matching)))"

text \<open>
  The \<^verbatim>\<open>LIKE\<close> operator of PostgreSQL (the database configured in
  \<^verbatim>\<open>app.module.ts\<close>), which TypeORM's \<^verbatim>\<open>Like(pattern)\<close> compiles to: it compares bytes
  (case-sensitively), \<^verbatim>\<open>%\<close> in the pattern stands for any run of characters, \<^verbatim>\<open>_\<close>
  for any one character, and a backslash makes the character after it literal. A
  pattern that ends in a lone backslash is an error in PostgreSQL; it matches nothing
  here, and \<open>findAll\<close> never builds one, since its patterns end in \<^verbatim>\<open>%\<close>.
\<close>

fun like_match :: "string \<Rightarrow> string \<Rightarrow> bool" where
  "like_match [] s = (s = [])"
| "like_match (c # p) s =
     (if c = CHR ''%'' then
        like_match p s \<or> (case s of [] \<Rightarrow> False | x # s' \<Rightarrow> like_match (c # p) s')
      else if c = CHR ''_'' then
        (case s of [] \<Rightarrow> False | x # s' \<Rightarrow> like_match p s')
      else if c = CHR 0x5C then
        (case p of
           [] \<Rightarrow> False
         | d # p' \<Rightarrow> (case s of [] \<Rightarrow> False | x # s' \<Rightarrow> x = d \<and> like_match p' s'))
      else
        (case s of [] \<Rightarrow> False | x # s' \<Rightarrow> x = c \<and> like_match p s'))"

text \<open>
  The envelope both \<^verbatim>\<open>PaginatedUsersResponse\<close> and \<^verbatim>\<open>PaginatedPostsResponse\<close> declare,
  and the pagination input of both modules. An absent field is \<open>None\<close>.
\<close>

record 'a Paginated =
  pr_items :: "'a list"
  pr_total :: int
  pr_page :: int
  pr_limit :: int
  pr_totalPages :: int
  pr_hasNextPage :: bool
  pr_hasPreviousPage :: bool

record PaginationInput =
  pgi_page :: "int option"
  pgi_limit :: "int option"

text \<open>
  \<^verbatim>\<open>Math.ceil(total / limit)\<close>: the quotient is taken in the reals. JavaScript takes it
  in double precision, which gives the same integer as long as \<open>total\<close> stays below
  \<open>2 ^ 53\<close>, far beyond any row count.
\<close>

definition math_ceil_div :: "int \<Rightarrow> int \<Rightarrow> int" where
  "math_ceil_div total' limit = \<lceil>real_of_int total' / real_of_int limit\<rceil>"


section \<open>PostsService\<close>

record CreatePostInput =
  cpi_title :: string
  cpi_content :: string
  cpi_published :: "bool option"

record PostFilterInput =
  pfi_searchTerm :: "string option"
  pfi_published :: "bool option"
  pfi_authorId :: "string option"

text \<open>
  Modelled from the spec: the column declaration of \<^verbatim>\<open>published\<close> in
  \<^verbatim>\<open>posts/entities/post.entity.ts\<close>, which is not among the source files. The spec's data
  model gives the Post a "published flag (default false)"; the database fills this
  default in when the inserted entity carries no \<^verbatim>\<open>published\<close>.
\<close>

definition post_published_default :: bool where
  "post_published_default = False"

text \<open>
  \<^verbatim>\<open>create\<close>: the entity is \<^verbatim>\<open>{...createPostInput, author, authorId: author.id}\<close>, so
  \<^verbatim>\<open>authorId\<close> is written after the spread of the input; the database adds the id, the
  timestamps and the column defaults.
\<close>

definition PostsService_create ::
  "env \<Rightarrow> store \<Rightarrow> CreatePostInput \<Rightarrow> User \<Rightarrow> (http_error + Post) \<times> store" where
  "PostsService_create ev st createPostInput author =
     (let post = \<lparr>post_id = new_id ev,
                  post_title = cpi_title createPostInput,
                  post_content = cpi_content createPostInput,
                  post_published =
                    (case cpi_published createPostInput of
                       None \<Rightarrow> post_published_default
                     | Some b \<Rightarrow> b),
                  post_authorId = user_id author,
                  post_createdAt = now ev,
                  post_updatedAt = now ev\<rparr>
      in if persist_ok ev
         then (Inr post, st\<lparr>posts := posts st @ [post]\<rparr>)
         else (Inl (InternalServerErrorException ''Failed to create post''), st))"

text \<open>
  The \<^verbatim>\<open>where\<close> object of \<^verbatim>\<open>findAll\<close>: a key that was not set puts no condition.
  \<^verbatim>\<open>published\<close> is copied when it is not \<^verbatim>\<open>undefined\<close>, \<^verbatim>\<open>authorId\<close> and
  \<^verbatim>\<open>searchTerm\<close> when they are truthy; the title condition is the pattern
  \<^verbatim>\<open>`%${searchTerm}%`\<close>.
\<close>

record PostWhere =
  where_published :: "bool option"
  where_authorId :: "string option"
  where_title_like :: "string option"

definition findAll_where :: "PostFilterInput option \<Rightarrow> PostWhere" where
  "findAll_where filterInput =
     (case filterInput of
        None \<Rightarrow> \<lparr>where_published = None, where_authorId = None, where_title_like = None\<rparr>
      | Some f \<Rightarrow>
          \<lparr>where_published = pfi_published f,
           where_authorId = (if truthy (pfi_authorId f) then pfi_authorId f else None),
           where_title_like =
             (if truthy (pfi_searchTerm f)
              then map_option (\<lambda>t. ''%'' @ t @ ''%'') (pfi_searchTerm f)
              else None)\<rparr>)"

definition where_matches :: "PostWhere \<Rightarrow> Post \<Rightarrow> bool" where
  "where_matches w p =
     ((case where_published w of None \<Rightarrow> True | Some b \<Rightarrow> post_published p = b) \<and>
      (case where_authorId w of None \<Rightarrow> True | Some a \<Rightarrow> post_authorId p = a) \<and>
      (case where_title_like w of None \<Rightarrow> True | Some pat \<Rightarrow> like_match pat (post_title p)))"

definition PostsService_findAll ::
  "store \<Rightarrow> PaginationInput \<Rightarrow> PostFilterInput option \<Rightarrow> Post Paginated" where
  "PostsService_findAll st paginationInput filterInput =
     (let page = (case pgi_page paginationInput of None \<Rightarrow> 1 | Some p \<Rightarrow> p);
          limit = (case pgi_limit paginationInput of None \<Rightarrow> 10 | Some l \<Rightarrow> l);
          skip = (page - 1) * limit;
          wh = findAll_where filterInput;
          (items, total') = findAndCount (where_matches wh) skip limit post_createdAt (posts st);
          totalPages = math_ceil_div total' limit
      in \<lparr>pr_items = items, pr_total = total', pr_page = page, pr_limit = limit,
          pr_totalPages = totalPages,
          pr_hasNextPage = (page < totalPages),
          pr_hasPreviousPage = (page > 1)\<rparr>)"

definition PostsService_findByUser ::
  "store \<Rightarrow> string \<Rightarrow> PaginationInput \<Rightarrow> Post Paginated" where
  "PostsService_findByUser st userId paginationInput =
     (let page = (case pgi_page paginationInput of None \<Rightarrow> 1 | Some p \<Rightarrow> p);
          limit = (case pgi_limit paginationInput of None \<Rightarrow> 10 | Some l \<Rightarrow> l);
          skip = (page - 1) * limit;
          (items, total') =
            findAndCount (\<lambda>p. post_authorId p = userId) skip limit post_createdAt (posts st);
          totalPages = math_ceil_div total' limit
      in \<lparr>pr_items = items, pr_total = total', pr_page = page, pr_limit = limit,
          pr_totalPages = totalPages,
          pr_hasNextPage = (page < totalPages),
          pr_hasPreviousPage = (page > 1)\<rparr>)"

record UpdatePostInput =
  upi_title :: "string option"
  upi_content :: "string option"
  upi_published :: "bool option"

definition PostsService_findOne :: "store \<Rightarrow> string \<Rightarrow> http_error + Post" where
  "PostsService_findOne st i =
     (case find (\<lambda>p. post_id p = i) (posts st) of
        None \<Rightarrow> Inl (post_not_found i)
      | Some post \<Rightarrow> Inr post)"

text \<open>\<^verbatim>\<open>Object.assign(post, updatePostInput)\<close>: the fields the input carries overwrite.\<close>

definition assign_post :: "Post \<Rightarrow> UpdatePostInput \<Rightarrow> Post" where
  "assign_post post inp =
     post\<lparr>post_title := (case upi_title inp of None \<Rightarrow> post_title post | Some t \<Rightarrow> t),
          post_content := (case upi_content inp of None \<Rightarrow> post_content post | Some c \<Rightarrow> c),
          post_published := (case upi_published inp of None \<Rightarrow> post_published post | Some b \<Rightarrow> b)\<rparr>"

definition PostsService_update ::
  "env \<Rightarrow> store \<Rightarrow> string \<Rightarrow> UpdatePostInput \<Rightarrow> User \<Rightarrow> (http_error + Post) \<times> store" where
  "PostsService_update ev st i inp currentUser =
     (case PostsService_findOne st i of
        Inl e \<Rightarrow> (Inl e, st)
      | Inr post \<Rightarrow>
          if user_role currentUser \<noteq> ADMIN \<and> post_authorId post \<noteq> user_id currentUser
          then (Inl (ForbiddenException ''You can only update your own posts''), st)
          else
            let post' = (assign_post post inp)\<lparr>post_updatedAt := now ev\<rparr>
            in if persist_ok ev
               then (Inr post', st\<lparr>posts := save_post post' (posts st)\<rparr>)
               else (Inl (InternalServerErrorException ''Failed to update post''), st))"

definition PostsService_remove ::
  "env \<Rightarrow> store \<Rightarrow> string \<Rightarrow> User \<Rightarrow> (http_error + bool) \<times> store" where
  "PostsService_remove ev st i currentUser =
     (case PostsService_findOne st i of
        Inl e \<Rightarrow> (Inl e, st)
      | Inr post \<Rightarrow>
          if user_role currentUser \<noteq> ADMIN \<and> post_authorId post \<noteq> user_id currentUser
          then (Inl (ForbiddenException ''You can only delete your own posts''), st)
          else if persist_ok ev
               then (Inr True, st\<lparr>posts := remove_post post (posts st)\<rparr>)
               else (Inl (InternalServerErrorException ''Failed to delete post''), st))"

definition PostsService_publishPost ::
  "env \<Rightarrow> store \<Rightarrow> string \<Rightarrow> User \<Rightarrow> (http_error + Post) \<times> store" where
  "PostsService_publishPost ev st i currentUser =
     (case PostsService_findOne st i of
        Inl e \<Rightarrow> (Inl e, st)
      | Inr post \<Rightarrow>
          if user_role currentUser \<noteq> ADMIN \<and> post_authorId post \<noteq> user_id currentUser
          then (Inl (ForbiddenException ''You can only publish your own posts''), st)
          else
            let post' = post\<lparr>post_published := True, post_updatedAt := now ev\<rparr>
            in if persist_ok ev
               then (Inr post', st\<lparr>posts := save_post post' (posts st)\<rparr>)
               else (Inl (InternalServerErrorException ''Failed to publish post''), st))"

definition PostsService_unpublishPost ::
  "env \<Rightarrow> store \<Rightarrow> string \<Rightarrow> User \<Rightarrow> (http_error + Post) \<times> store" where
  "PostsService_unpublishPost ev st i currentUser =
     (case PostsService_findOne st i of
        Inl e \<Rightarrow> (Inl e, st)
      | Inr post \<Rightarrow>
          if user_role currentUser \<noteq> ADMIN \<and> post_authorId post \<noteq> user_id currentUser
          then (Inl (ForbiddenException ''You can only unpublish your own posts''), st)
          else
            let post' = post\<lparr>post_published := False, post_updatedAt := now ev\<rparr>
            in if persist_ok ev
               then (Inr post', st\<lparr>posts := save_post post' (posts st)\<rparr>)
               else (Inl (InternalServerErrorException ''Failed to unpublish post''), st))"

section \<open>UsersService\<close>

record CreateUserInput =
  cui_email :: string
  cui_firstName :: string
  cui_lastName :: string
  cui_password :: string
  cui_role :: "UserRole option"

record UpdateUserInput =
  uui_email :: "string option"
  uui_firstName :: "string option"
  uui_lastName :: "string option"
  uui_password :: "string option"
  uui_role :: "UserRole option"

text \<open>
  \<^verbatim>\<open>create\<close>: the entity is \<^verbatim>\<open>{...createUserInput, password: hashedPassword}\<close>; a role
  the input leaves out is filled by the column default \<^verbatim>\<open>UserRole.USER\<close> of the entity.
\<close>

definition UsersService_create ::
  "env \<Rightarrow> store \<Rightarrow> CreateUserInput \<Rightarrow> (http_error + User) \<times> store" where
  "UsersService_create ev st createUserInput =
     (case find (\<lambda>u. user_email u = cui_email createUserInput) (users st) of
        Some existingUser \<Rightarrow> (Inl (ConflictException ''Email already registered''), st)
      | None \<Rightarrow>
          let hashedPassword = bcrypt_hash ev (cui_password createUserInput);
              user = \<lparr>user_id = new_id ev,
                      user_email = cui_email createUserInput,
                      user_firstName = cui_firstName createUserInput,
                      user_lastName = cui_lastName createUserInput,
                      user_password = hashedPassword,
                      user_role = (case cui_role createUserInput of None \<Rightarrow> USER | Some r \<Rightarrow> r),
                      user_createdAt = now ev,
                      user_updatedAt = now ev\<rparr>
          in if persist_ok ev
             then (Inr user, st\<lparr>users := users st @ [user]\<rparr>)
             else (Inl (InternalServerErrorException ''Failed to create user''), st))"

definition UsersService_findAll :: "store \<Rightarrow> PaginationInput \<Rightarrow> User Paginated" where
  "UsersService_findAll st paginationInput =
     (let page = (case pgi_page paginationInput of None \<Rightarrow> 1 | Some p \<Rightarrow> p);
          limit = (case pgi_limit paginationInput of None \<Rightarrow> 10 | Some l \<Rightarrow> l);
          skip = (page - 1) * limit;
          (items, total') = findAndCount (\<lambda>u. True) skip limit user_createdAt (users st);
          totalPages = math_ceil_div total' limit
      in \<lparr>pr_items = items, pr_total = total', pr_page = page, pr_limit = limit,
          pr_totalPages = totalPages,
          pr_hasNextPage = (page < totalPages),
          pr_hasPreviousPage = (page > 1)\<rparr>)"

definition UsersService_findOne :: "store \<Rightarrow> string \<Rightarrow> http_error + User" where
  "UsersService_findOne st i =
     (case find (\<lambda>u. user_id u = i) (users st) of
        None \<Rightarrow> Inl (user_not_found i)
      | Some user \<Rightarrow> Inr user)"

definition UsersService_findByEmail :: "store \<Rightarrow> string \<Rightarrow> User option" where
  "UsersService_findByEmail st e = find (\<lambda>u. user_email u = e) (users st)"

text \<open>
  \<^verbatim>\<open>Object.assign(user, updateUserInput)\<close>, after the input's password, when truthy, was
  replaced by its hash.
\<close>

definition assign_user :: "env \<Rightarrow> User \<Rightarrow> UpdateUserInput \<Rightarrow> User" where
  "assign_user ev user inp =
     user\<lparr>user_email := (case uui_email inp of None \<Rightarrow> user_email user | Some e \<Rightarrow> e),
          user_firstName := (case uui_firstName inp of None \<Rightarrow> user_firstName user | Some n \<Rightarrow> n),
          user_lastName := (case uui_lastName inp of None \<Rightarrow> user_lastName user | Some n \<Rightarrow> n),
          user_password :=
            (case uui_password inp of
               None \<Rightarrow> user_password user
             | Some p \<Rightarrow> if p \<noteq> [] then bcrypt_hash ev p else p),
          user_role := (case uui_role inp of None \<Rightarrow> user_role user | Some r \<Rightarrow> r)\<rparr>"

definition UsersService_update ::
  "env \<Rightarrow> store \<Rightarrow> string \<Rightarrow> UpdateUserInput \<Rightarrow> User \<Rightarrow> (http_error + User) \<times> store" where
  "UsersService_update ev st i updateUserInput currentUser =
     (case UsersService_findOne st i of
        Inl e \<Rightarrow> (Inl e, st)
      | Inr user \<Rightarrow>
          if user_role currentUser \<noteq> ADMIN \<and> user_id currentUser \<noteq> i
          then (Inl (ForbiddenException ''You can only update your own profile''), st)
          else if (case uui_email updateUserInput of
                     None \<Rightarrow> False
                   | Some e \<Rightarrow> e \<noteq> [] \<and> e \<noteq> user_email user \<and>
                       find (\<lambda>u. user_email u = e) (users st) \<noteq> None)
          then (Inl (ConflictException ''Email already registered''), st)
          else if uui_role updateUserInput \<noteq> None \<and> user_role currentUser \<noteq> ADMIN
          then (Inl (ForbiddenException ''Only admins can change user roles''), st)
          else
            let user' = (assign_user ev user updateUserInput)\<lparr>user_updatedAt := now ev\<rparr>
            in if persist_ok ev
               then (Inr user', st\<lparr>users := save_user user' (users st)\<rparr>)
               else (Inl (InternalServerErrorException ''Failed to update user''), st))"

definition UsersService_remove ::
  "env \<Rightarrow> store \<Rightarrow> string \<Rightarrow> User \<Rightarrow> (http_error + bool) \<times> store" where
  "UsersService_remove ev st i currentUser =
     (case UsersService_findOne st i of
        Inl e \<Rightarrow> (Inl e, st)
      | Inr user \<Rightarrow>
          if user_role currentUser \<noteq> ADMIN \<and> user_id currentUser \<noteq> i
          then (Inl (ForbiddenException ''You can only delete your own account''), st)
          else if user_id currentUser = i \<and> user_role currentUser \<noteq> ADMIN
          then (Inl (ForbiddenException ''You cannot delete your own account''), st)
          else if persist_ok ev
               then (Inr True, st\<lparr>users := remove_user user (users st)\<rparr>)
               else (Inl (InternalServerErrorException ''Failed to delete user''), st))"

section \<open>AuthService\<close>

text \<open>
  \<^verbatim>\<open>RegisterInput\<close> and \<^verbatim>\<open>AuthResponse\<close> are declared in \<^verbatim>\<open>auth/dto\<close>; their fields
  are the ones \<^verbatim>\<open>register\<close> destructures and returns. The resolver's test builds a
  \<^verbatim>\<open>RegisterInput\<close> without \<^verbatim>\<open>role\<close>, so that field is optional.
\<close>

record RegisterInput =
  ri_email :: string
  ri_password :: string
  ri_firstName :: string
  ri_lastName :: string
  ri_role :: "UserRole option"

record LoginInput =
  li_email :: string
  li_password :: string

record AuthResponse =
  ar_accessToken :: string
  ar_refreshToken :: string
  ar_user :: User

definition token_payload :: "User \<Rightarrow> JwtPayload" where
  "token_payload user =
     \<lparr>jwt_sub = user_id user, jwt_email = user_email user, jwt_role = user_role user\<rparr>"

definition generateTokens :: "env \<Rightarrow> User \<Rightarrow> string \<times> string" where
  "generateTokens ev user =
     (let payload = token_payload user
      in (jwt_sign ev payload None, jwt_sign ev payload (Some ''7d'')))"

text \<open>
  \<^verbatim>\<open>register\<close>: \<^verbatim>\<open>role: role || UserRole.USER\<close>. Both values of the enum are non-empty
  strings, hence truthy, so the default applies to an absent role only. The \<^verbatim>\<open>try\<close>
  block holds the save and the signing of the tokens; the signing is taken to return,
  so the block fails exactly when the save does.
\<close>

definition AuthService_register ::
  "env \<Rightarrow> store \<Rightarrow> RegisterInput \<Rightarrow> (http_error + AuthResponse) \<times> store" where
  "AuthService_register ev st registerInput =
     (case find (\<lambda>u. user_email u = ri_email registerInput) (users st) of
        Some existingUser \<Rightarrow> (Inl (ConflictException ''Email already registered''), st)
      | None \<Rightarrow>
          let hashedPassword = bcrypt_hash ev (ri_password registerInput);
              user = \<lparr>user_id = new_id ev,
                      user_email = ri_email registerInput,
                      user_firstName = ri_firstName registerInput,
                      user_lastName = ri_lastName registerInput,
                      user_password = hashedPassword,
                      user_role = (case ri_role registerInput of None \<Rightarrow> USER | Some r \<Rightarrow> r),
                      user_createdAt = now ev,
                      user_updatedAt = now ev\<rparr>
          in if persist_ok ev
             then (let (accessToken, refreshToken) = generateTokens ev user
                   in (Inr \<lparr>ar_accessToken = accessToken, ar_refreshToken = refreshToken,
                            ar_user = user\<rparr>,
                       st\<lparr>users := users st @ [user]\<rparr>))
             else (Inl (InternalServerErrorException ''Failed to create user''), st))"

definition AuthService_login :: "env \<Rightarrow> store \<Rightarrow> LoginInput \<Rightarrow> http_error + AuthResponse" where
  "AuthService_login ev st loginInput =
     (case find (\<lambda>u. user_email u = li_email loginInput) (users st) of
        None \<Rightarrow> Inl (UnauthorizedException ''Invalid credentials'')
      | Some user \<Rightarrow>
          let isPasswordValid = bcrypt_compare ev (li_password loginInput) (user_password user)
          in if \<not> isPasswordValid
             then Inl (UnauthorizedException ''Invalid credentials'')
             else (let (accessToken, refreshToken) = generateTokens ev user
                   in Inr \<lparr>ar_accessToken = accessToken, ar_refreshToken = refreshToken,
                           ar_user = user\<rparr>))"

definition AuthService_refreshToken :: "env \<Rightarrow> store \<Rightarrow> string \<Rightarrow> http_error + AuthResponse" where
  "AuthService_refreshToken ev st userId =
     (case find (\<lambda>u. user_id u = userId) (users st) of
        None \<Rightarrow> Inl (UnauthorizedException ''User not found'')
      | Some user \<Rightarrow>
          (let (accessToken, refreshToken) = generateTokens ev user
           in Inr \<lparr>ar_accessToken = accessToken, ar_refreshToken = refreshToken,
                   ar_user = user\<rparr>))"

definition AuthService_validateUser :: "store \<Rightarrow> string \<Rightarrow> http_error + User" where
  "AuthService_validateUser st userId =
     (case find (\<lambda>u. user_id u = userId) (users st) of
        None \<Rightarrow> Inl (UnauthorizedException ''User not found'')
      | Some user \<Rightarrow> Inr user)"

section \<open>Predicates of the specification\<close>

text \<open>The ownership check in the spec's words (section 4.2).\<close>

definition canModify :: "Post \<Rightarrow> User \<Rightarrow> bool" where
  "canModify post user = (user_role user = ADMIN \<or> post_authorId post = user_id user)"

text \<open>An operation succeeded when its result is a value, not an exception.\<close>

definition succeeds :: "('e + 'a) \<times> 's \<Rightarrow> bool" where
  "succeeds r = (case fst r of Inl e \<Rightarrow> False | Inr v \<Rightarrow> True)"

text \<open>
  The filter predicate in the spec's words (section 4.2): every present field puts its
  condition, the search term as a substring of the title.
\<close>

definition spec_filter :: "PostFilterInput \<Rightarrow> Post \<Rightarrow> bool" where
  "spec_filter f p =
     ((case pfi_published f of None \<Rightarrow> True | Some b \<Rightarrow> post_published p = b) \<and>
      (case pfi_authorId f of None \<Rightarrow> True | Some a \<Rightarrow> post_authorId p = a) \<and>
      (case pfi_searchTerm f of None \<Rightarrow> True | Some t \<Rightarrow> sublist t (post_title p)))"

text \<open>
  The same with the guard of the code on \<^verbatim>\<open>authorId\<close>: an empty id puts no condition.
  (An empty search term needs no such clause: every title contains it.)
\<close>

definition guarded_filter :: "PostFilterInput \<Rightarrow> Post \<Rightarrow> bool" where
  "guarded_filter f p =
     ((case pfi_published f of None \<Rightarrow> True | Some b \<Rightarrow> post_published p = b) \<and>
      (case pfi_authorId f of None \<Rightarrow> True | Some a \<Rightarrow> a = [] \<or> post_authorId p = a) \<and>
      (case pfi_searchTerm f of None \<Rightarrow> True | Some t \<Rightarrow> sublist t (post_title p)))"

text \<open>A search term none of whose characters \<^verbatim>\<open>LIKE\<close> reads as a wildcard or an escape.\<close>

definition like_plain :: "string \<Rightarrow> bool" where
  "like_plain t = (\<forall>c \<in> set t. c \<noteq> CHR ''%'' \<and> c \<noteq> CHR ''_'' \<and> c \<noteq> CHR 0x5C)"

definition plain_search :: "PostFilterInput \<Rightarrow> bool" where
  "plain_search f = (case pfi_searchTerm f of None \<Rightarrow> True | Some t \<Rightarrow> like_plain t)"

text \<open>The error kinds a rejected operation ends in: NotFound, Forbidden, AlreadyExists.\<close>

fun rejection :: "http_error \<Rightarrow> bool" where
  "rejection (NotFoundException m) = True"
| "rejection (ForbiddenException m) = True"
| "rejection (ConflictException m) = True"
| "rejection (UnauthorizedException m) = False"
| "rejection (InternalServerErrorException m) = False"

text \<open>
  The pagination inputs that pass the DTO's validation (\<^verbatim>\<open>@IsOptional() @IsInt() @Min(1)\<close>
  on \<^verbatim>\<open>page\<close> and on \<^verbatim>\<open>limit\<close>).
\<close>

definition valid_pagination :: "PaginationInput \<Rightarrow> bool" where
  "valid_pagination pg =
     ((case pgi_page pg of None \<Rightarrow> True | Some p \<Rightarrow> 1 \<le> p) \<and>
      (case pgi_limit pg of None \<Rightarrow> True | Some l \<Rightarrow> 1 \<le> l))"

text \<open>
  The envelope property of the spec (section 8): page and limit are at least 1,
  \<open>totalPages\<close> is the ceiling of \<open>total / limit\<close>, which is to say the one integer \<open>n\<close>
  with \<open>(n - 1) * limit < total \<le> n * limit\<close>, the two flags compare \<open>page\<close> with
  \<open>totalPages\<close> and with 1, and there are at most \<open>limit\<close> items.
\<close>

definition envelope_ok :: "'a Paginated \<Rightarrow> bool" where
  "envelope_ok r =
     (1 \<le> pr_limit r \<and> 1 \<le> pr_page r \<and>
      pr_totalPages r = \<lceil>real_of_int (pr_total r) / real_of_int (pr_limit r)\<rceil> \<and>
      pr_total r \<le> pr_totalPages r * pr_limit r \<and>
      (pr_totalPages r - 1) * pr_limit r < pr_total r \<and>
      pr_hasNextPage r = (pr_page r < pr_totalPages r) \<and>
      pr_hasPreviousPage r = (1 < pr_page r) \<and>
      int (length (pr_items r)) \<le> pr_limit r)"

section \<open>Sample data\<close>

text \<open>
  A small database in the manner of \<^verbatim>\<open>seeds/seed-data.ts\<close>, and an environment whose
  hash and signature are simple enough to read.
\<close>

definition test_env :: env where
  "test_env =
     \<lparr>persist_ok = True, new_id = ''9'', now = 100,
      bcrypt_hash = (\<lambda>p. ''h:'' @ p),
      bcrypt_compare = (\<lambda>p h. h = ''h:'' @ p),
      jwt_sign = (\<lambda>pl e. jwt_sub pl @ ''/'' @ jwt_email pl @ ''/'' @
                   (case jwt_role pl of USER \<Rightarrow> ''user'' | ADMIN \<Rightarrow> ''admin'') @ ''/'' @
                   (case e of None \<Rightarrow> ''1d'' | Some d \<Rightarrow> d))\<rparr>"

definition seed_admin :: User where
  "seed_admin =
     \<lparr>user_id = ''1'', user_email = ''admin@example.com'', user_firstName = ''Admin'',
      user_lastName = ''User'', user_password = ''h:admin123'', user_role = ADMIN,
      user_createdAt = 1, user_updatedAt = 1\<rparr>"

definition seed_john :: User where
  "seed_john =
     \<lparr>user_id = ''2'', user_email = ''john@example.com'', user_firstName = ''John'',
      user_lastName = ''Doe'', user_password = ''h:password123'', user_role = USER,
      user_createdAt = 2, user_updatedAt = 2\<rparr>"

definition seed_jane :: User where
  "seed_jane =
     \<lparr>user_id = ''3'', user_email = ''jane@example.com'', user_firstName = ''Jane'',
      user_lastName = ''Smith'', user_password = ''h:password123'', user_role = USER,
      user_createdAt = 3, user_updatedAt = 3\<rparr>"

definition post_graphql :: Post where
  "post_graphql =
     \<lparr>post_id = ''a'', post_title = ''Getting Started with GraphQL'', post_content = ''...'',
      post_published = True, post_authorId = ''1'', post_createdAt = 10, post_updatedAt = 10\<rparr>"

definition post_typescript :: Post where
  "post_typescript =
     \<lparr>post_id = ''b'', post_title = ''My Journey with TypeScript'', post_content = ''...'',
      post_published = False, post_authorId = ''3'', post_createdAt = 11, post_updatedAt = 11\<rparr>"

definition post_rest :: Post where
  "post_rest =
     \<lparr>post_id = ''c'', post_title = ''REST vs GraphQL'', post_content = ''...'',
      post_published = False, post_authorId = ''2'', post_createdAt = 12, post_updatedAt = 12\<rparr>"

definition seed_store :: store where
  "seed_store =
     \<lparr>users = [seed_admin, seed_john, seed_jane],
      posts = [post_graphql, post_typescript, post_rest]\<rparr>"

section \<open>Ownership of posts\<close>

lemma PostsService_findOne_found:
  "find (\<lambda>p. post_id p = i) (posts st) = Some P \<Longrightarrow> PostsService_findOne st i = Inr P"
  by (simp add: PostsService_findOne_def)

text \<open>
  Claim C1. For an existing post \<open>P\<close> and an acting user \<open>U\<close>, each of update, remove,
  publishPost and unpublishPost succeeds, when the write itself goes through, exactly when
  \<open>U\<close> is an admin or the author of \<open>P\<close>; otherwise it throws ForbiddenException and the
  store, and with it the post, is what it was.
\<close>

theorem post_mutations_ownership:
  assumes "find (\<lambda>p. post_id p = i) (posts st) = Some P"
  shows "(persist_ok ev \<longrightarrow>
            (succeeds (PostsService_update ev st i inp U) \<longleftrightarrow> canModify P U) \<and>
            (succeeds (PostsService_remove ev st i U) \<longleftrightarrow> canModify P U) \<and>
            (succeeds (PostsService_publishPost ev st i U) \<longleftrightarrow> canModify P U) \<and>
            (succeeds (PostsService_unpublishPost ev st i U) \<longleftrightarrow> canModify P U))
       \<and> (\<not> canModify P U \<longrightarrow>
            PostsService_update ev st i inp U =
              (Inl (ForbiddenException ''You can only update your own posts''), st) \<and>
            PostsService_remove ev st i U =
              (Inl (ForbiddenException ''You can only delete your own posts''), st) \<and>
            PostsService_publishPost ev st i U =
              (Inl (ForbiddenException ''You can only publish your own posts''), st) \<and>
            PostsService_unpublishPost ev st i U =
              (Inl (ForbiddenException ''You can only unpublish your own posts''), st))"
proof -
  note found = PostsService_findOne_found [OF assms]
  have upd: "persist_ok ev \<Longrightarrow> succeeds (PostsService_update ev st i inp U) = canModify P U"
    by (simp add: PostsService_update_def found succeeds_def canModify_def Let_def)
  have rem: "persist_ok ev \<Longrightarrow> succeeds (PostsService_remove ev st i U) = canModify P U"
    by (simp add: PostsService_remove_def found succeeds_def canModify_def)
  have pub: "persist_ok ev \<Longrightarrow> succeeds (PostsService_publishPost ev st i U) = canModify P U"
    by (simp add: PostsService_publishPost_def found succeeds_def canModify_def Let_def)
  have unp: "persist_ok ev \<Longrightarrow> succeeds (PostsService_unpublishPost ev st i U) = canModify P U"
    by (simp add: PostsService_unpublishPost_def found succeeds_def canModify_def Let_def)
  have upd_f: "\<not> canModify P U \<Longrightarrow> PostsService_update ev st i inp U =
        (Inl (ForbiddenException ''You can only update your own posts''), st)"
    by (simp add: PostsService_update_def found canModify_def)
  have rem_f: "\<not> canModify P U \<Longrightarrow> PostsService_remove ev st i U =
        (Inl (ForbiddenException ''You can only delete your own posts''), st)"
    by (simp add: PostsService_remove_def found canModify_def)
  have pub_f: "\<not> canModify P U \<Longrightarrow> PostsService_publishPost ev st i U =
        (Inl (ForbiddenException ''You can only publish your own posts''), st)"
    by (simp add: PostsService_publishPost_def found canModify_def)
  have unp_f: "\<not> canModify P U \<Longrightarrow> PostsService_unpublishPost ev st i U =
        (Inl (ForbiddenException ''You can only unpublish your own posts''), st)"
    by (simp add: PostsService_unpublishPost_def found canModify_def)
  from upd rem pub unp upd_f rem_f pub_f unp_f show ?thesis by blast
qed

theorem post_mutations_ownership_witness:
  "find (\<lambda>p. post_id p = ''b'') (posts seed_store) = Some post_typescript
   \<and> persist_ok test_env
   \<and> canModify post_typescript seed_jane
   \<and> succeeds (PostsService_publishPost test_env seed_store ''b'' seed_jane)
   \<and> \<not> canModify post_typescript seed_john
   \<and> PostsService_unpublishPost test_env seed_store ''b'' seed_john =
       (Inl (ForbiddenException ''You can only unpublish your own posts''), seed_store)"
proof -
  have found: "find (\<lambda>p. post_id p = ''b'') (posts seed_store) = Some post_typescript"
    by (simp add: seed_store_def post_graphql_def post_typescript_def)
  have ok: "persist_ok test_env"
    by (simp add: test_env_def)
  have jane: "canModify post_typescript seed_jane"
    by (simp add: canModify_def post_typescript_def seed_jane_def)
  have john: "\<not> canModify post_typescript seed_john"
    by (simp add: canModify_def post_typescript_def seed_john_def)
  from post_mutations_ownership [OF found, of test_env undefined seed_jane]
       post_mutations_ownership [OF found, of test_env undefined seed_john]
       found ok jane john
  show ?thesis by blast
qed

section \<open>Deleting a user\<close>

lemma UsersService_findOne_found:
  "find (\<lambda>u. user_id u = i) (users st) = Some T \<Longrightarrow> UsersService_findOne st i = Inr T"
  by (simp add: UsersService_findOne_def)

text \<open>
  Claim C2, as the spec states it, fails: an admin who removes their own account is not
  refused. Here the seeded admin removes user \<open>''1''\<close>, which is the admin.
\<close>

theorem UsersService_remove_admin_self_counterexample:
  "UsersService_remove test_env seed_store (user_id seed_admin) seed_admin =
     (Inr True, seed_store\<lparr>users := [seed_john, seed_jane]\<rparr>)"
  by (simp add: UsersService_remove_def UsersService_findOne_def remove_user_def
        seed_store_def seed_admin_def seed_john_def seed_jane_def test_env_def)

text \<open>
  Claim C2, amended. For an existing user with id \<open>i\<close> and an acting user \<open>U\<close>: when \<open>U\<close>
  is not an admin, remove throws ForbiddenException and leaves the store alone, for
  another account and for \<open>U\<close>'s own alike; when \<open>U\<close> is an admin, remove deletes the row
  (if the write goes through), for another account and for \<open>U\<close>'s own alike. So remove
  succeeds only for an admin.
\<close>

theorem UsersService_remove_admin_only:
  assumes "find (\<lambda>u. user_id u = i) (users st) = Some T"
  shows "(user_role U \<noteq> ADMIN \<and> user_id U \<noteq> i \<longrightarrow>
            UsersService_remove ev st i U =
              (Inl (ForbiddenException ''You can only delete your own account''), st))
       \<and> (user_role U \<noteq> ADMIN \<and> user_id U = i \<longrightarrow>
            UsersService_remove ev st i U =
              (Inl (ForbiddenException ''You cannot delete your own account''), st))
       \<and> (user_role U = ADMIN \<and> persist_ok ev \<longrightarrow>
            UsersService_remove ev st i U =
              (Inr True, st\<lparr>users := remove_user T (users st)\<rparr>))
       \<and> (succeeds (UsersService_remove ev st i U) \<longrightarrow> user_role U = ADMIN)"
proof -
  note found = UsersService_findOne_found [OF assms]
  have other: "user_role U \<noteq> ADMIN \<and> user_id U \<noteq> i \<longrightarrow>
      UsersService_remove ev st i U =
        (Inl (ForbiddenException ''You can only delete your own account''), st)"
    by (simp add: UsersService_remove_def found)
  have self: "user_role U \<noteq> ADMIN \<and> user_id U = i \<longrightarrow>
      UsersService_remove ev st i U =
        (Inl (ForbiddenException ''You cannot delete your own account''), st)"
    by (simp add: UsersService_remove_def found)
  have admin: "user_role U = ADMIN \<and> persist_ok ev \<longrightarrow>
      UsersService_remove ev st i U = (Inr True, st\<lparr>users := remove_user T (users st)\<rparr>)"
    by (simp add: UsersService_remove_def found)
  have only: "succeeds (UsersService_remove ev st i U) \<longrightarrow> user_role U = ADMIN"
    by (simp add: UsersService_remove_def found succeeds_def)
  from other self admin only show ?thesis by blast
qed

theorem UsersService_remove_admin_only_witness:
  "find (\<lambda>u. user_id u = ''2'') (users seed_store) = Some seed_john
   \<and> user_role seed_jane \<noteq> ADMIN \<and> user_id seed_jane \<noteq> ''2''
   \<and> UsersService_remove test_env seed_store ''2'' seed_jane =
       (Inl (ForbiddenException ''You can only delete your own account''), seed_store)
   \<and> user_role seed_john \<noteq> ADMIN \<and> user_id seed_john = ''2''
   \<and> UsersService_remove test_env seed_store ''2'' seed_john =
       (Inl (ForbiddenException ''You cannot delete your own account''), seed_store)
   \<and> user_role seed_admin = ADMIN \<and> persist_ok test_env
   \<and> UsersService_remove test_env seed_store ''2'' seed_admin =
       (Inr True, seed_store\<lparr>users := [seed_admin, seed_jane]\<rparr>)
   \<and> succeeds (UsersService_remove test_env seed_store ''2'' seed_admin)"
proof -
  have found: "find (\<lambda>u. user_id u = ''2'') (users seed_store) = Some seed_john"
    by (simp add: seed_store_def seed_admin_def seed_john_def)
  have jane: "user_role seed_jane \<noteq> ADMIN \<and> user_id seed_jane \<noteq> ''2''"
    by (simp add: seed_jane_def)
  have john: "user_role seed_john \<noteq> ADMIN \<and> user_id seed_john = ''2''"
    by (simp add: seed_john_def)
  have admin: "user_role seed_admin = ADMIN \<and> persist_ok test_env"
    by (simp add: seed_admin_def test_env_def)
  have rows: "remove_user seed_john (users seed_store) = [seed_admin, seed_jane]"
    by (simp add: remove_user_def seed_store_def seed_admin_def seed_john_def seed_jane_def)
  have fin: "succeeds (Inr True :: http_error + bool, seed_store\<lparr>users := [seed_admin, seed_jane]\<rparr>)"
    by (simp add: succeeds_def)
  from UsersService_remove_admin_only [OF found, of seed_jane test_env]
       UsersService_remove_admin_only [OF found, of seed_john test_env]
       UsersService_remove_admin_only [OF found, of seed_admin test_env]
       found jane john admin rows fin
  show ?thesis by simp
qed

section \<open>Email uniqueness\<close>

lemma find_email_taken:
  "e \<in> user_email ` set rows \<Longrightarrow> \<exists>u. find (\<lambda>u. user_email u = e) rows = Some u"
  by (cases "find (\<lambda>u. user_email u = e) rows") (auto simp: find_None_iff)

text \<open>
  Claim C5. When the email of the input is already the email of a stored user, both
  \<^verbatim>\<open>UsersService.create\<close> and \<^verbatim>\<open>AuthService.register\<close> throw ConflictException (the
  spec's AlreadyExists) and return the store as it was: no row is written.
\<close>

theorem duplicate_email_rejected:
  "(cui_email createUserInput \<in> user_email ` set (users st) \<longrightarrow>
      UsersService_create ev st createUserInput =
        (Inl (ConflictException ''Email already registered''), st))
   \<and> (ri_email registerInput \<in> user_email ` set (users st) \<longrightarrow>
      AuthService_register ev st registerInput =
        (Inl (ConflictException ''Email already registered''), st))"
proof (intro conjI impI)
  assume "cui_email createUserInput \<in> user_email ` set (users st)"
  then obtain u where "find (\<lambda>u. user_email u = cui_email createUserInput) (users st) = Some u"
    using find_email_taken by blast
  then show "UsersService_create ev st createUserInput =
      (Inl (ConflictException ''Email already registered''), st)"
    by (simp add: UsersService_create_def)
next
  assume "ri_email registerInput \<in> user_email ` set (users st)"
  then obtain u where "find (\<lambda>u. user_email u = ri_email registerInput) (users st) = Some u"
    using find_email_taken by blast
  then show "AuthService_register ev st registerInput =
      (Inl (ConflictException ''Email already registered''), st)"
    by (simp add: AuthService_register_def)
qed

theorem duplicate_email_rejected_witness:
  "''john@example.com'' \<in> user_email ` set (users seed_store)
   \<and> UsersService_create test_env seed_store
        \<lparr>cui_email = ''john@example.com'', cui_firstName = ''J'', cui_lastName = ''D'',
         cui_password = ''secret1'', cui_role = None\<rparr> =
       (Inl (ConflictException ''Email already registered''), seed_store)
   \<and> AuthService_register test_env seed_store
        \<lparr>ri_email = ''john@example.com'', ri_password = ''secret1'', ri_firstName = ''J'',
         ri_lastName = ''D'', ri_role = Some ADMIN\<rparr> =
       (Inl (ConflictException ''Email already registered''), seed_store)"
proof -
  have taken: "''john@example.com'' \<in> user_email ` set (users seed_store)"
    by (simp add: seed_store_def seed_john_def)
  from taken
    duplicate_email_rejected [of
      "\<lparr>cui_email = ''john@example.com'', cui_firstName = ''J'', cui_lastName = ''D'',
        cui_password = ''secret1'', cui_role = None\<rparr>"
      seed_store test_env
      "\<lparr>ri_email = ''john@example.com'', ri_password = ''secret1'', ri_firstName = ''J'',
        ri_lastName = ''D'', ri_role = Some ADMIN\<rparr>"]
  show ?thesis by simp
qed

section \<open>Login\<close>

text \<open>
  Claim C6. \<^verbatim>\<open>login\<close> throws UnauthorizedException when no stored user has the email and
  when the password does not match the stored hash, with one and the same exception value
  (kind and message). When the lookup finds a user and the password matches, it returns
  that user with two tokens signed over the payload of the user's id, email and role, the
  second with the expiry \<^verbatim>\<open>7d\<close>.
\<close>

theorem login_credentials:
  "(li_email loginInput \<notin> user_email ` set (users st) \<longrightarrow>
      AuthService_login ev st loginInput = Inl (UnauthorizedException ''Invalid credentials''))
   \<and> (\<forall>u. find (\<lambda>u. user_email u = li_email loginInput) (users st) = Some u \<and>
           \<not> bcrypt_compare ev (li_password loginInput) (user_password u) \<longrightarrow>
      AuthService_login ev st loginInput = Inl (UnauthorizedException ''Invalid credentials''))
   \<and> (\<forall>u. find (\<lambda>u. user_email u = li_email loginInput) (users st) = Some u \<and>
           bcrypt_compare ev (li_password loginInput) (user_password u) \<longrightarrow>
      AuthService_login ev st loginInput =
        Inr \<lparr>ar_accessToken =
               jwt_sign ev \<lparr>jwt_sub = user_id u, jwt_email = user_email u,
                            jwt_role = user_role u\<rparr> None,
             ar_refreshToken =
               jwt_sign ev \<lparr>jwt_sub = user_id u, jwt_email = user_email u,
                            jwt_role = user_role u\<rparr> (Some ''7d''),
             ar_user = u\<rparr>)"
proof (intro conjI allI impI)
  assume "li_email loginInput \<notin> user_email ` set (users st)"
  then have "find (\<lambda>u. user_email u = li_email loginInput) (users st) = None"
    by (force simp: find_None_iff)
  then show "AuthService_login ev st loginInput = Inl (UnauthorizedException ''Invalid credentials'')"
    by (simp add: AuthService_login_def)
next
  fix u
  assume "find (\<lambda>u. user_email u = li_email loginInput) (users st) = Some u \<and>
          \<not> bcrypt_compare ev (li_password loginInput) (user_password u)"
  then show "AuthService_login ev st loginInput = Inl (UnauthorizedException ''Invalid credentials'')"
    by (simp add: AuthService_login_def)
next
  fix u
  assume "find (\<lambda>u. user_email u = li_email loginInput) (users st) = Some u \<and>
          bcrypt_compare ev (li_password loginInput) (user_password u)"
  then show "AuthService_login ev st loginInput =
        Inr \<lparr>ar_accessToken =
               jwt_sign ev \<lparr>jwt_sub = user_id u, jwt_email = user_email u,
                            jwt_role = user_role u\<rparr> None,
             ar_refreshToken =
               jwt_sign ev \<lparr>jwt_sub = user_id u, jwt_email = user_email u,
                            jwt_role = user_role u\<rparr> (Some ''7d''),
             ar_user = u\<rparr>"
    by (simp add: AuthService_login_def generateTokens_def token_payload_def Let_def)
qed

theorem login_credentials_witness:
  "''nobody@example.com'' \<notin> user_email ` set (users seed_store)
   \<and> AuthService_login test_env seed_store
        \<lparr>li_email = ''nobody@example.com'', li_password = ''password123''\<rparr> =
       Inl (UnauthorizedException ''Invalid credentials'')
   \<and> find (\<lambda>u. user_email u = ''john@example.com'') (users seed_store) = Some seed_john
   \<and> \<not> bcrypt_compare test_env ''wrong'' (user_password seed_john)
   \<and> AuthService_login test_env seed_store
        \<lparr>li_email = ''john@example.com'', li_password = ''wrong''\<rparr> =
       Inl (UnauthorizedException ''Invalid credentials'')
   \<and> bcrypt_compare test_env ''password123'' (user_password seed_john)
   \<and> AuthService_login test_env seed_store
        \<lparr>li_email = ''john@example.com'', li_password = ''password123''\<rparr> =
       Inr \<lparr>ar_accessToken = ''2/john@example.com/user/1d'',
            ar_refreshToken = ''2/john@example.com/user/7d'',
            ar_user = seed_john\<rparr>"
proof -
  have absent: "''nobody@example.com'' \<notin> user_email ` set (users seed_store)"
    by (simp add: seed_store_def seed_admin_def seed_john_def seed_jane_def)
  have found: "find (\<lambda>u. user_email u = ''john@example.com'') (users seed_store) = Some seed_john"
    by (simp add: seed_store_def seed_admin_def seed_john_def)
  have wrong: "\<not> bcrypt_compare test_env ''wrong'' (user_password seed_john)"
    by (simp add: test_env_def seed_john_def)
  have right: "bcrypt_compare test_env ''password123'' (user_password seed_john)"
    by (simp add: test_env_def seed_john_def)
  have access: "jwt_sign test_env \<lparr>jwt_sub = user_id seed_john, jwt_email = user_email seed_john,
      jwt_role = user_role seed_john\<rparr> None = ''2/john@example.com/user/1d''"
    by (simp add: test_env_def seed_john_def)
  have refresh: "jwt_sign test_env \<lparr>jwt_sub = user_id seed_john, jwt_email = user_email seed_john,
      jwt_role = user_role seed_john\<rparr> (Some ''7d'') = ''2/john@example.com/user/7d''"
    by (simp add: test_env_def seed_john_def)
  from login_credentials [of "\<lparr>li_email = ''nobody@example.com'', li_password = ''password123''\<rparr>"
         seed_store test_env]
       login_credentials [of "\<lparr>li_email = ''john@example.com'', li_password = ''wrong''\<rparr>"
         seed_store test_env]
       login_credentials [of "\<lparr>li_email = ''john@example.com'', li_password = ''password123''\<rparr>"
         seed_store test_env]
       absent found wrong right access refresh
  show ?thesis by simp
qed

section \<open>Creating a post\<close>

text \<open>
  Claim C8. When the write goes through, \<^verbatim>\<open>PostsService.create\<close> appends one post whose
  \<^verbatim>\<open>authorId\<close> is the id of the authenticated author, whatever the input holds (the input
  type has no author field), and whose \<^verbatim>\<open>published\<close> is false when the input leaves it
  out and the input's value otherwise.
\<close>

theorem created_post_author_and_default:
  "persist_ok ev \<longrightarrow>
     (\<exists>post. PostsService_create ev st createPostInput author =
               (Inr post, st\<lparr>posts := posts st @ [post]\<rparr>)
           \<and> post_authorId post = user_id author
           \<and> (cpi_published createPostInput = None \<longrightarrow> post_published post = False)
           \<and> (\<forall>b. cpi_published createPostInput = Some b \<longrightarrow> post_published post = b))"
  by (simp add: PostsService_create_def Let_def post_published_default_def)

theorem created_post_author_and_default_witness:
  "persist_ok test_env
   \<and> cpi_published \<lparr>cpi_title = ''Hello'', cpi_content = ''World'', cpi_published = None\<rparr> = None
   \<and> PostsService_create test_env seed_store
        \<lparr>cpi_title = ''Hello'', cpi_content = ''World'', cpi_published = None\<rparr> seed_john =
       (Inr \<lparr>post_id = ''9'', post_title = ''Hello'', post_content = ''World'',
             post_published = False, post_authorId = ''2'',
             post_createdAt = 100, post_updatedAt = 100\<rparr>,
        seed_store\<lparr>posts := posts seed_store @
          [\<lparr>post_id = ''9'', post_title = ''Hello'', post_content = ''World'',
            post_published = False, post_authorId = ''2'',
            post_createdAt = 100, post_updatedAt = 100\<rparr>]\<rparr>)"
proof -
  have ok: "persist_ok test_env"
    by (simp add: test_env_def)
  from created_post_author_and_default [of test_env seed_store
         "\<lparr>cpi_title = ''Hello'', cpi_content = ''World'', cpi_published = None\<rparr>" seed_john] ok
  obtain post where
    res: "PostsService_create test_env seed_store
            \<lparr>cpi_title = ''Hello'', cpi_content = ''World'', cpi_published = None\<rparr> seed_john =
          (Inr post, seed_store\<lparr>posts := posts seed_store @ [post]\<rparr>)"
    and author: "post_authorId post = user_id seed_john"
    and unpublished: "post_published post = False"
    by auto
  have shape: "fst (PostsService_create test_env seed_store
            \<lparr>cpi_title = ''Hello'', cpi_content = ''World'', cpi_published = None\<rparr> seed_john) =
        Inr \<lparr>post_id = ''9'', post_title = ''Hello'', post_content = ''World'',
             post_published = post_published_default, post_authorId = ''2'',
             post_createdAt = 100, post_updatedAt = 100\<rparr>"
    by (simp add: PostsService_create_def Let_def test_env_def seed_john_def)
  from res shape have "post = \<lparr>post_id = ''9'', post_title = ''Hello'', post_content = ''World'',
             post_published = post_published_default, post_authorId = ''2'',
             post_createdAt = 100, post_updatedAt = 100\<rparr>"
    by simp
  with unpublished author have "post = \<lparr>post_id = ''9'', post_title = ''Hello'',
             post_content = ''World'', post_published = False, post_authorId = ''2'',
             post_createdAt = 100, post_updatedAt = 100\<rparr>"
    by simp
  with res ok show ?thesis by simp
qed

section \<open>Registering with a role\<close>

text \<open>
  Claim C9. \<^verbatim>\<open>register\<close>, which the resolver exposes under \<^verbatim>\<open>@Public()\<close> and which takes
  no acting user, stores the role its input carries: with a fresh email and a write that
  goes through, the created user has role admin when the input says admin, and the default
  role user applies only when the input has no role. The tokens it returns are signed
  over that role.
\<close>

theorem register_persists_input_role:
  "ri_email registerInput \<notin> user_email ` set (users st) \<and> persist_ok ev \<longrightarrow>
     (\<exists>resp. AuthService_register ev st registerInput =
               (Inr resp, st\<lparr>users := users st @ [ar_user resp]\<rparr>)
           \<and> (ri_role registerInput = Some ADMIN \<longrightarrow> user_role (ar_user resp) = ADMIN)
           \<and> (ri_role registerInput = Some USER \<longrightarrow> user_role (ar_user resp) = USER)
           \<and> (ri_role registerInput = None \<longrightarrow> user_role (ar_user resp) = USER)
           \<and> ar_accessToken resp =
               jwt_sign ev \<lparr>jwt_sub = new_id ev, jwt_email = ri_email registerInput,
                            jwt_role = user_role (ar_user resp)\<rparr> None)"
proof
  assume a: "ri_email registerInput \<notin> user_email ` set (users st) \<and> persist_ok ev"
  then have "find (\<lambda>u. user_email u = ri_email registerInput) (users st) = None"
    by (force simp: find_None_iff)
  with a show "\<exists>resp. AuthService_register ev st registerInput =
               (Inr resp, st\<lparr>users := users st @ [ar_user resp]\<rparr>)
           \<and> (ri_role registerInput = Some ADMIN \<longrightarrow> user_role (ar_user resp) = ADMIN)
           \<and> (ri_role registerInput = Some USER \<longrightarrow> user_role (ar_user resp) = USER)
           \<and> (ri_role registerInput = None \<longrightarrow> user_role (ar_user resp) = USER)
           \<and> ar_accessToken resp =
               jwt_sign ev \<lparr>jwt_sub = new_id ev, jwt_email = ri_email registerInput,
                            jwt_role = user_role (ar_user resp)\<rparr> None"
    by (simp add: AuthService_register_def generateTokens_def token_payload_def Let_def)
qed

theorem register_persists_input_role_witness:
  "''eve@example.com'' \<notin> user_email ` set (users seed_store) \<and> persist_ok test_env
   \<and> user_role (ar_user (projr (fst (AuthService_register test_env seed_store
        \<lparr>ri_email = ''eve@example.com'', ri_password = ''secret1'', ri_firstName = ''Eve'',
         ri_lastName = ''X'', ri_role = Some ADMIN\<rparr>)))) = ADMIN
   \<and> snd (AuthService_register test_env seed_store
        \<lparr>ri_email = ''eve@example.com'', ri_password = ''secret1'', ri_firstName = ''Eve'',
         ri_lastName = ''X'', ri_role = Some ADMIN\<rparr>) =
       seed_store\<lparr>users := users seed_store @
         [\<lparr>user_id = ''9'', user_email = ''eve@example.com'', user_firstName = ''Eve'',
           user_lastName = ''X'', user_password = ''h:secret1'', user_role = ADMIN,
           user_createdAt = 100, user_updatedAt = 100\<rparr>]\<rparr>"
proof -
  let ?inp = "\<lparr>ri_email = ''eve@example.com'', ri_password = ''secret1'', ri_firstName = ''Eve'',
         ri_lastName = ''X'', ri_role = Some ADMIN\<rparr>"
  have fresh: "''eve@example.com'' \<notin> user_email ` set (users seed_store)"
    by (simp add: seed_store_def seed_admin_def seed_john_def seed_jane_def)
  have ok: "persist_ok test_env"
    by (simp add: test_env_def)
  from register_persists_input_role [of ?inp seed_store test_env] fresh ok
  obtain resp where
    res: "AuthService_register test_env seed_store ?inp =
            (Inr resp, seed_store\<lparr>users := users seed_store @ [ar_user resp]\<rparr>)"
    and admin: "user_role (ar_user resp) = ADMIN"
    by auto
  have find_none: "find (\<lambda>u. user_email u = ''eve@example.com'') (users seed_store) = None"
    by (simp add: seed_store_def seed_admin_def seed_john_def seed_jane_def)
  have stored: "snd (AuthService_register test_env seed_store ?inp) =
       seed_store\<lparr>users := users seed_store @
         [\<lparr>user_id = ''9'', user_email = ''eve@example.com'', user_firstName = ''Eve'',
           user_lastName = ''X'', user_password = ''h:secret1'', user_role = ADMIN,
           user_createdAt = 100, user_updatedAt = 100\<rparr>]\<rparr>"
    by (simp add: AuthService_register_def find_none generateTokens_def Let_def test_env_def)
  from res admin stored fresh ok show ?thesis by simp
qed

section \<open>Pagination\<close>

lemma math_ceil_div_eq_div: "math_ceil_div T L = - ((- T) div L)"
  unfolding math_ceil_div_def by (rule ceiling_divide_eq_div)

lemma math_ceil_div_bounds:
  assumes "0 < L"
  shows "T \<le> math_ceil_div T L * L \<and> (math_ceil_div T L - 1) * L < T"
proof -
  define q where "q = (- T) div L"
  define r where "r = (- T) mod L"
  have eq: "- T = q * L + r"
    by (simp add: q_def r_def)
  have r0: "0 \<le> r" and rL: "r < L"
    using assms by (simp_all add: r_def)
  have n: "math_ceil_div T L = - q"
    by (simp add: math_ceil_div_eq_div q_def)
  have "T \<le> (- q) * L"
    using eq r0 by (simp add: algebra_simps)
  moreover have "(- q - 1) * L < T"
    using eq rL by (simp add: algebra_simps)
  ultimately show ?thesis by (simp add: n)
qed

lemma math_ceil_div_unique:
  assumes "0 < L" "T \<le> n * L" "(n - 1) * L < T"
  shows "math_ceil_div T L = n"
proof -
  let ?m = "math_ceil_div T L"
  from math_ceil_div_bounds [OF assms(1), of T]
  have m1: "T \<le> ?m * L" and m2: "(?m - 1) * L < T"
    by simp_all
  from assms(3) m1 have "(n - 1) * L < ?m * L" by linarith
  with assms(1) have a: "n - 1 < ?m" by (simp add: mult_less_cancel_right_pos)
  from m2 assms(2) have "(?m - 1) * L < n * L" by linarith
  with assms(1) have b: "?m - 1 < n" by (simp add: mult_less_cancel_right_pos)
  from a b show ?thesis by linarith
qed

lemma length_findAndCount:
  "0 \<le> tk \<Longrightarrow> int (length (fst (findAndCount wh sk tk cr rows))) \<le> tk"
  by (simp add: findAndCount_def Let_def)

lemma total_findAndCount:
  "snd (findAndCount wh sk tk cr rows) = int (length (filter wh rows))"
  by (simp add: findAndCount_def Let_def)

lemma set_findAndCount:
  "set (fst (findAndCount wh sk tk cr rows)) \<subseteq> {r \<in> set rows. wh r}"
proof -
  let ?m = "sort_key (\<lambda>r. - cr r) (filter wh rows)"
  have "set (take (nat tk) (drop (nat sk) ?m)) \<subseteq> set (drop (nat sk) ?m)"
    by (rule set_take_subset)
  also have "\<dots> \<subseteq> set ?m"
    by (rule set_drop_subset)
  also have "\<dots> = {r \<in> set rows. wh r}"
    by auto
  finally show ?thesis
    by (simp add: findAndCount_def Let_def)
qed

lemma effective_page:
  "valid_pagination pg \<Longrightarrow> 1 \<le> (case pgi_page pg of None \<Rightarrow> 1 | Some p \<Rightarrow> p)"
  by (simp add: valid_pagination_def split: option.splits)

lemma effective_limit:
  "valid_pagination pg \<Longrightarrow> 1 \<le> (case pgi_limit pg of None \<Rightarrow> 10 | Some l \<Rightarrow> l)"
  by (simp add: valid_pagination_def split: option.splits)

lemma envelope_of_findAndCount:
  assumes "1 \<le> L" and "1 \<le> p"
  shows "envelope_ok
           \<lparr>pr_items = fst (findAndCount wh sk L cr rows),
            pr_total = snd (findAndCount wh sk L cr rows),
            pr_page = p, pr_limit = L,
            pr_totalPages = math_ceil_div (snd (findAndCount wh sk L cr rows)) L,
            pr_hasNextPage = (p < math_ceil_div (snd (findAndCount wh sk L cr rows)) L),
            pr_hasPreviousPage = (p > 1)\<rparr>"
proof -
  from assms(1) have pos: "0 < L" and nonneg: "0 \<le> L" by simp_all
  note bounds = math_ceil_div_bounds [OF pos, of "snd (findAndCount wh sk L cr rows)"]
  from bounds length_findAndCount [OF nonneg, of wh sk cr rows] assms
  show ?thesis
    by (simp add: envelope_ok_def math_ceil_div_def)
qed

text \<open>Each listing, with the pair that \<^verbatim>\<open>findAndCount\<close> returns named once.\<close>

lemma UsersService_findAll_shape:
  "UsersService_findAll st pg =
     (let p = (case pgi_page pg of None \<Rightarrow> 1 | Some p \<Rightarrow> p);
          L = (case pgi_limit pg of None \<Rightarrow> 10 | Some l \<Rightarrow> l);
          fc = findAndCount (\<lambda>u. True) ((p - 1) * L) L user_createdAt (users st)
      in \<lparr>pr_items = fst fc, pr_total = snd fc, pr_page = p, pr_limit = L,
          pr_totalPages = math_ceil_div (snd fc) L,
          pr_hasNextPage = (p < math_ceil_div (snd fc) L),
          pr_hasPreviousPage = (p > 1)\<rparr>)"
  by (simp add: UsersService_findAll_def Let_def case_prod_beta)

lemma PostsService_findAll_shape:
  "PostsService_findAll st pg filterInput =
     (let p = (case pgi_page pg of None \<Rightarrow> 1 | Some p \<Rightarrow> p);
          L = (case pgi_limit pg of None \<Rightarrow> 10 | Some l \<Rightarrow> l);
          fc = findAndCount (where_matches (findAll_where filterInput)) ((p - 1) * L) L
                 post_createdAt (posts st)
      in \<lparr>pr_items = fst fc, pr_total = snd fc, pr_page = p, pr_limit = L,
          pr_totalPages = math_ceil_div (snd fc) L,
          pr_hasNextPage = (p < math_ceil_div (snd fc) L),
          pr_hasPreviousPage = (p > 1)\<rparr>)"
  by (simp add: PostsService_findAll_def Let_def case_prod_beta)

lemma PostsService_findByUser_shape:
  "PostsService_findByUser st userId pg =
     (let p = (case pgi_page pg of None \<Rightarrow> 1 | Some p \<Rightarrow> p);
          L = (case pgi_limit pg of None \<Rightarrow> 10 | Some l \<Rightarrow> l);
          fc = findAndCount (\<lambda>p. post_authorId p = userId) ((p - 1) * L) L
                 post_createdAt (posts st)
      in \<lparr>pr_items = fst fc, pr_total = snd fc, pr_page = p, pr_limit = L,
          pr_totalPages = math_ceil_div (snd fc) L,
          pr_hasNextPage = (p < math_ceil_div (snd fc) L),
          pr_hasPreviousPage = (p > 1)\<rparr>)"
  by (simp add: PostsService_findByUser_def Let_def case_prod_beta)

text \<open>
  Claim C3. For a pagination input whose page and limit, where given, are at least 1, the
  envelope of every listing (users, posts, posts of one author) has page and limit at
  least 1, \<open>totalPages = \<lceil>total / limit\<rceil>\<close>, \<open>hasNextPage = (page < totalPages)\<close>,
  \<open>hasPreviousPage = (page > 1)\<close> and at most \<open>limit\<close> items.
\<close>

theorem pagination_envelope:
  assumes "valid_pagination pg"
  shows "envelope_ok (UsersService_findAll st pg)
       \<and> envelope_ok (PostsService_findAll st pg filterInput)
       \<and> envelope_ok (PostsService_findByUser st userId pg)"
proof -
  note L = effective_limit [OF assms] and p = effective_page [OF assms]
  have u: "envelope_ok (UsersService_findAll st pg)"
    unfolding UsersService_findAll_shape Let_def
    by (rule envelope_of_findAndCount [OF L p])
  have a: "envelope_ok (PostsService_findAll st pg filterInput)"
    unfolding PostsService_findAll_shape Let_def
    by (rule envelope_of_findAndCount [OF L p])
  have b: "envelope_ok (PostsService_findByUser st userId pg)"
    unfolding PostsService_findByUser_shape Let_def
    by (rule envelope_of_findAndCount [OF L p])
  from u a b show ?thesis by blast
qed

theorem pagination_envelope_witness:
  "valid_pagination \<lparr>pgi_page = Some 1, pgi_limit = Some 2\<rparr>
   \<and> envelope_ok (PostsService_findAll seed_store \<lparr>pgi_page = Some 1, pgi_limit = Some 2\<rparr> None)
   \<and> PostsService_findAll seed_store \<lparr>pgi_page = Some 1, pgi_limit = Some 2\<rparr> None =
       \<lparr>pr_items = [post_rest, post_typescript], pr_total = 3, pr_page = 1, pr_limit = 2,
        pr_totalPages = 2, pr_hasNextPage = True, pr_hasPreviousPage = False\<rparr>"
proof -
  have valid: "valid_pagination \<lparr>pgi_page = Some 1, pgi_limit = Some 2\<rparr>"
    by (simp add: valid_pagination_def)
  have run: "PostsService_findAll seed_store \<lparr>pgi_page = Some 1, pgi_limit = Some 2\<rparr> None =
       \<lparr>pr_items = [post_rest, post_typescript], pr_total = 3, pr_page = 1, pr_limit = 2,
        pr_totalPages = 2, pr_hasNextPage = True, pr_hasPreviousPage = False\<rparr>"
    by (simp add: PostsService_findAll_def findAndCount_def findAll_where_def where_matches_def
          math_ceil_div_def seed_store_def post_graphql_def post_typescript_def post_rest_def)
  from pagination_envelope [OF valid, of seed_store None undefined] valid run
  show ?thesis by simp
qed

section \<open>Rejected operations write nothing\<close>

text \<open>
  One lemma for each operation that writes: when it ends in NotFound, Forbidden or
  AlreadyExists, it ends so whether or not the write would have gone through, and returns
  the store it was given.
\<close>

lemma UsersService_create_rejected:
  "fst (UsersService_create ev st inp) = Inl e \<Longrightarrow> rejection e \<Longrightarrow>
   UsersService_create (ev\<lparr>persist_ok := b\<rparr>) st inp = (Inl e, st)"
  by (auto simp: UsersService_create_def Let_def split: option.splits if_splits)

lemma UsersService_update_rejected:
  "fst (UsersService_update ev st i inp U) = Inl e \<Longrightarrow> rejection e \<Longrightarrow>
   UsersService_update (ev\<lparr>persist_ok := b\<rparr>) st i inp U = (Inl e, st)"
  by (auto simp: UsersService_update_def Let_def split: sum.splits if_splits)

lemma UsersService_remove_rejected:
  "fst (UsersService_remove ev st i U) = Inl e \<Longrightarrow> rejection e \<Longrightarrow>
   UsersService_remove (ev\<lparr>persist_ok := b\<rparr>) st i U = (Inl e, st)"
  by (auto simp: UsersService_remove_def Let_def split: sum.splits if_splits)

lemma PostsService_create_rejected:
  "fst (PostsService_create ev st inp U) = Inl e \<Longrightarrow> rejection e \<Longrightarrow>
   PostsService_create (ev\<lparr>persist_ok := b\<rparr>) st inp U = (Inl e, st)"
  by (auto simp: PostsService_create_def Let_def split: sum.splits if_splits)

lemma PostsService_update_rejected:
  "fst (PostsService_update ev st i inp U) = Inl e \<Longrightarrow> rejection e \<Longrightarrow>
   PostsService_update (ev\<lparr>persist_ok := b\<rparr>) st i inp U = (Inl e, st)"
  by (auto simp: PostsService_update_def Let_def split: sum.splits if_splits)

lemma PostsService_remove_rejected:
  "fst (PostsService_remove ev st i U) = Inl e \<Longrightarrow> rejection e \<Longrightarrow>
   PostsService_remove (ev\<lparr>persist_ok := b\<rparr>) st i U = (Inl e, st)"
  by (auto simp: PostsService_remove_def Let_def split: sum.splits if_splits)

lemma PostsService_publishPost_rejected:
  "fst (PostsService_publishPost ev st i U) = Inl e \<Longrightarrow> rejection e \<Longrightarrow>
   PostsService_publishPost (ev\<lparr>persist_ok := b\<rparr>) st i U = (Inl e, st)"
  by (auto simp: PostsService_publishPost_def Let_def split: sum.splits if_splits)

lemma PostsService_unpublishPost_rejected:
  "fst (PostsService_unpublishPost ev st i U) = Inl e \<Longrightarrow> rejection e \<Longrightarrow>
   PostsService_unpublishPost (ev\<lparr>persist_ok := b\<rparr>) st i U = (Inl e, st)"
  by (auto simp: PostsService_unpublishPost_def Let_def split: sum.splits if_splits)

lemma AuthService_register_rejected:
  "fst (AuthService_register ev st inp) = Inl e \<Longrightarrow> rejection e \<Longrightarrow>
   AuthService_register (ev\<lparr>persist_ok := b\<rparr>) st inp = (Inl e, st)"
  by (auto simp: AuthService_register_def Let_def case_prod_beta split: option.splits if_splits)


text \<open>
  Claim C7. Whenever an operation of the three services ends in NotFoundException,
  ForbiddenException or ConflictException, the store it returns is the store it was
  given, and the outcome does not depend on whether the write would have succeeded: every
  check that rejects comes before the write.
\<close>

theorem rejected_operation_writes_nothing:
  "(fst (UsersService_create ev st createUserInput) = Inl e \<and> rejection e \<longrightarrow>
      snd (UsersService_create ev st createUserInput) = st \<and>
      UsersService_create (ev\<lparr>persist_ok := b\<rparr>) st createUserInput = (Inl e, st))
   \<and> (fst (UsersService_update ev st i updateUserInput U) = Inl e \<and> rejection e \<longrightarrow>
      snd (UsersService_update ev st i updateUserInput U) = st \<and>
      UsersService_update (ev\<lparr>persist_ok := b\<rparr>) st i updateUserInput U = (Inl e, st))
   \<and> (fst (UsersService_remove ev st i U) = Inl e \<and> rejection e \<longrightarrow>
      snd (UsersService_remove ev st i U) = st \<and>
      UsersService_remove (ev\<lparr>persist_ok := b\<rparr>) st i U = (Inl e, st))
   \<and> (fst (AuthService_register ev st registerInput) = Inl e \<and> rejection e \<longrightarrow>
      snd (AuthService_register ev st registerInput) = st \<and>
      AuthService_register (ev\<lparr>persist_ok := b\<rparr>) st registerInput = (Inl e, st))
   \<and> (fst (PostsService_create ev st createPostInput U) = Inl e \<and> rejection e \<longrightarrow>
      snd (PostsService_create ev st createPostInput U) = st \<and>
      PostsService_create (ev\<lparr>persist_ok := b\<rparr>) st createPostInput U = (Inl e, st))
   \<and> (fst (PostsService_update ev st i updatePostInput U) = Inl e \<and> rejection e \<longrightarrow>
      snd (PostsService_update ev st i updatePostInput U) = st \<and>
      PostsService_update (ev\<lparr>persist_ok := b\<rparr>) st i updatePostInput U = (Inl e, st))
   \<and> (fst (PostsService_remove ev st i U) = Inl e \<and> rejection e \<longrightarrow>
      snd (PostsService_remove ev st i U) = st \<and>
      PostsService_remove (ev\<lparr>persist_ok := b\<rparr>) st i U = (Inl e, st))
   \<and> (fst (PostsService_publishPost ev st i U) = Inl e \<and> rejection e \<longrightarrow>
      snd (PostsService_publishPost ev st i U) = st \<and>
      PostsService_publishPost (ev\<lparr>persist_ok := b\<rparr>) st i U = (Inl e, st))
   \<and> (fst (PostsService_unpublishPost ev st i U) = Inl e \<and> rejection e \<longrightarrow>
      snd (PostsService_unpublishPost ev st i U) = st \<and>
      PostsService_unpublishPost (ev\<lparr>persist_ok := b\<rparr>) st i U = (Inl e, st))"
proof -
  have c1: "(fst (UsersService_create ev st createUserInput) = Inl e \<and> rejection e \<longrightarrow>
        snd (UsersService_create ev st createUserInput) = st \<and>
        UsersService_create (ev\<lparr>persist_ok := b\<rparr>) st createUserInput = (Inl e, st))"
    using UsersService_create_rejected [of ev st createUserInput e \<open>persist_ok ev\<close>]
          UsersService_create_rejected [of ev st createUserInput e b]
    by auto
  have c2: "(fst (UsersService_update ev st i updateUserInput U) = Inl e \<and> rejection e \<longrightarrow>
        snd (UsersService_update ev st i updateUserInput U) = st \<and>
        UsersService_update (ev\<lparr>persist_ok := b\<rparr>) st i updateUserInput U = (Inl e, st))"
    using UsersService_update_rejected [of ev st i updateUserInput U e \<open>persist_ok ev\<close>]
          UsersService_update_rejected [of ev st i updateUserInput U e b]
    by auto
  have c3: "(fst (UsersService_remove ev st i U) = Inl e \<and> rejection e \<longrightarrow>
        snd (UsersService_remove ev st i U) = st \<and>
        UsersService_remove (ev\<lparr>persist_ok := b\<rparr>) st i U = (Inl e, st))"
    using UsersService_remove_rejected [of ev st i U e \<open>persist_ok ev\<close>]
          UsersService_remove_rejected [of ev st i U e b]
    by auto
  have c4: "(fst (AuthService_register ev st registerInput) = Inl e \<and> rejection e \<longrightarrow>
        snd (AuthService_register ev st registerInput) = st \<and>
        AuthService_register (ev\<lparr>persist_ok := b\<rparr>) st registerInput = (Inl e, st))"
    using AuthService_register_rejected [of ev st registerInput e \<open>persist_ok ev\<close>]
          AuthService_register_rejected [of ev st registerInput e b]
    by auto
  have c5: "(fst (PostsService_create ev st createPostInput U) = Inl e \<and> rejection e \<longrightarrow>
        snd (PostsService_create ev st createPostInput U) = st \<and>
        PostsService_create (ev\<lparr>persist_ok := b\<rparr>) st createPostInput U = (Inl e, st))"
    using PostsService_create_rejected [of ev st createPostInput U e \<open>persist_ok ev\<close>]
          PostsService_create_rejected [of ev st createPostInput U e b]
    by auto
  have c6: "(fst (PostsService_update ev st i updatePostInput U) = Inl e \<and> rejection e \<longrightarrow>
        snd (PostsService_update ev st i updatePostInput U) = st \<and>
        PostsService_update (ev\<lparr>persist_ok := b\<rparr>) st i updatePostInput U = (Inl e, st))"
    using PostsService_update_rejected [of ev st i updatePostInput U e \<open>persist_ok ev\<close>]
          PostsService_update_rejected [of ev st i updatePostInput U e b]
    by auto
  have c7: "(fst (PostsService_remove ev st i U) = Inl e \<and> rejection e \<longrightarrow>
        snd (PostsService_remove ev st i U) = st \<and>
        PostsService_remove (ev\<lparr>persist_ok := b\<rparr>) st i U = (Inl e, st))"
    using PostsService_remove_rejected [of ev st i U e \<open>persist_ok ev\<close>]
          PostsService_remove_rejected [of ev st i U e b]
    by auto
  have c8: "(fst (PostsService_publishPost ev st i U) = Inl e \<and> rejection e \<longrightarrow>
        snd (PostsService_publishPost ev st i U) = st \<and>
        PostsService_publishPost (ev\<lparr>persist_ok := b\<rparr>) st i U = (Inl e, st))"
    using PostsService_publishPost_rejected [of ev st i U e \<open>persist_ok ev\<close>]
          PostsService_publishPost_rejected [of ev st i U e b]
    by auto
  have c9: "(fst (PostsService_unpublishPost ev st i U) = Inl e \<and> rejection e \<longrightarrow>
        snd (PostsService_unpublishPost ev st i U) = st \<and>
        PostsService_unpublishPost (ev\<lparr>persist_ok := b\<rparr>) st i U = (Inl e, st))"
    using PostsService_unpublishPost_rejected [of ev st i U e \<open>persist_ok ev\<close>]
          PostsService_unpublishPost_rejected [of ev st i U e b]
    by auto
  from c1 c2 c3 c4 c5 c6 c7 c8 c9 show ?thesis by blast
qed

theorem rejected_operation_writes_nothing_witness:
  "fst (UsersService_update test_env seed_store ''3''
          \<lparr>uui_email = None, uui_firstName = Some ''Janet'', uui_lastName = None,
           uui_password = None, uui_role = None\<rparr> seed_john) =
     Inl (ForbiddenException ''You can only update your own profile'')
   \<and> rejection (ForbiddenException ''You can only update your own profile'')
   \<and> snd (UsersService_update test_env seed_store ''3''
          \<lparr>uui_email = None, uui_firstName = Some ''Janet'', uui_lastName = None,
           uui_password = None, uui_role = None\<rparr> seed_john) = seed_store
   \<and> fst (UsersService_update test_env seed_store ''2''
          \<lparr>uui_email = Some ''jane@example.com'', uui_firstName = None, uui_lastName = None,
           uui_password = None, uui_role = None\<rparr> seed_john) =
     Inl (ConflictException ''Email already registered'')
   \<and> rejection (ConflictException ''Email already registered'')
   \<and> snd (UsersService_update test_env seed_store ''2''
          \<lparr>uui_email = Some ''jane@example.com'', uui_firstName = None, uui_lastName = None,
           uui_password = None, uui_role = None\<rparr> seed_john) = seed_store
   \<and> fst (PostsService_update test_env seed_store ''zz''
          \<lparr>upi_title = Some ''New'', upi_content = None, upi_published = None\<rparr> seed_admin) =
     Inl (post_not_found ''zz'')
   \<and> rejection (post_not_found ''zz'')
   \<and> snd (PostsService_update test_env seed_store ''zz''
          \<lparr>upi_title = Some ''New'', upi_content = None, upi_published = None\<rparr> seed_admin) =
     seed_store"
proof -
  let ?forbidden = "ForbiddenException ''You can only update your own profile''"
  let ?conflict = "ConflictException ''Email already registered''"
  let ?rename = "\<lparr>uui_email = None, uui_firstName = Some ''Janet'', uui_lastName = None,
           uui_password = None, uui_role = None\<rparr>"
  let ?steal = "\<lparr>uui_email = Some ''jane@example.com'', uui_firstName = None,
           uui_lastName = None, uui_password = None, uui_role = None\<rparr>"
  let ?title = "\<lparr>upi_title = Some ''New'', upi_content = None, upi_published = None\<rparr>"
  have f: "fst (UsersService_update test_env seed_store ''3'' ?rename seed_john) = Inl ?forbidden"
    by (simp add: UsersService_update_def UsersService_findOne_def seed_store_def
          seed_admin_def seed_john_def seed_jane_def)
  have c: "fst (UsersService_update test_env seed_store ''2'' ?steal seed_john) = Inl ?conflict"
    by (simp add: UsersService_update_def UsersService_findOne_def seed_store_def
          seed_admin_def seed_john_def seed_jane_def)
  have n: "fst (PostsService_update test_env seed_store ''zz'' ?title seed_admin) =
      Inl (post_not_found ''zz'')"
    by (simp add: PostsService_update_def PostsService_findOne_def seed_store_def
          post_graphql_def post_typescript_def post_rest_def)
  have r: "rejection ?forbidden" "rejection ?conflict" "rejection (post_not_found ''zz'')"
    by (simp_all add: post_not_found_def)
  from rejected_operation_writes_nothing
         [where ev = test_env and st = seed_store and i = "''3''" and updateUserInput = ?rename
            and U = seed_john and e = ?forbidden]
       rejected_operation_writes_nothing
         [where ev = test_env and st = seed_store and i = "''2''" and updateUserInput = ?steal
            and U = seed_john and e = ?conflict]
       rejected_operation_writes_nothing
         [where ev = test_env and st = seed_store and i = "''zz''" and updatePostInput = ?title
            and U = seed_admin and e = "post_not_found ''zz''"]
       f c n r
  show ?thesis by simp
qed

section \<open>Filtering posts\<close>

lemma like_percent_Nil: "like_match (CHR ''%'' # p) [] = like_match p []"
  by simp

lemma like_percent_Cons:
  "like_match (CHR ''%'' # p) (x # s) = (like_match p (x # s) \<or> like_match (CHR ''%'' # p) s)"
  by simp

lemma like_literal:
  "c \<noteq> CHR ''%'' \<Longrightarrow> c \<noteq> CHR ''_'' \<Longrightarrow> c \<noteq> CHR 0x5C \<Longrightarrow>
   like_match (c # p) s = (case s of [] \<Rightarrow> False | x # s' \<Rightarrow> x = c \<and> like_match p s')"
  by simp

text \<open>A leading \<^verbatim>\<open>%\<close> lets the rest of the pattern start anywhere.\<close>

lemma like_percent:
  "like_match (CHR ''%'' # p) s \<longleftrightarrow> (\<exists>pre suf. s = pre @ suf \<and> like_match p suf)"
proof (induction s)
  case Nil
  show ?case by (simp only: like_percent_Nil) simp
next
  case (Cons x s)
  have "like_match (CHR ''%'' # p) (x # s) \<longleftrightarrow>
        like_match p (x # s) \<or> (\<exists>pre suf. s = pre @ suf \<and> like_match p suf)"
    by (simp only: like_percent_Cons Cons.IH)
  also have "\<dots> \<longleftrightarrow> (\<exists>pre suf. x # s = pre @ suf \<and> like_match p suf)"
    by (auto simp: Cons_eq_append_conv)
  finally show ?case .
qed

text \<open>A plain term in the pattern must stand at the front of the string.\<close>

lemma like_plain_prefix:
  "like_plain t \<Longrightarrow> like_match (t @ p) s \<longleftrightarrow> (\<exists>s'. s = t @ s' \<and> like_match p s')"
proof (induction t arbitrary: s)
  case Nil
  show ?case by simp
next
  case (Cons c t)
  from Cons.prems have c: "c \<noteq> CHR ''%''" "c \<noteq> CHR ''_''" "c \<noteq> CHR 0x5C" and t: "like_plain t"
    by (simp_all add: like_plain_def)
  show ?case
  proof (cases s)
    case Nil
    with c show ?thesis by (simp only: append_Cons like_literal [OF c]) simp
  next
    case (Cons x s')
    with c Cons.IH [OF t, of s'] show ?thesis
      by (simp only: append_Cons like_literal [OF c]) auto
  qed
qed

lemma like_any: "like_match ''%'' r"
  by (subst like_percent) simp

lemma like_substring:
  assumes "like_plain t"
  shows "like_match (''%'' @ t @ ''%'') s \<longleftrightarrow> sublist t s"
proof -
  have "like_match (''%'' @ t @ ''%'') s \<longleftrightarrow>
        (\<exists>pre suf. s = pre @ suf \<and> like_match (t @ ''%'') suf)"
    using like_percent [of "t @ ''%''" s] by simp
  also have "\<dots> \<longleftrightarrow> (\<exists>pre suf. s = pre @ suf \<and> (\<exists>s'. suf = t @ s'))"
    by (simp only: like_plain_prefix [OF assms] like_any simp_thms)
  also have "\<dots> \<longleftrightarrow> sublist t s"
    by (auto simp: sublist_def)
  finally show ?thesis .
qed

lemma where_matches_guarded:
  assumes "plain_search f"
  shows "where_matches (findAll_where (Some f)) p = guarded_filter f p"
proof (cases "pfi_searchTerm f")
  case None
  then show ?thesis
    by (auto simp: where_matches_def findAll_where_def guarded_filter_def truthy_def
        split: option.splits)
next
  case (Some t)
  with assms have "like_plain t" by (simp add: plain_search_def)
  from like_substring [OF this] Some show ?thesis
    by (auto simp: where_matches_def findAll_where_def guarded_filter_def truthy_def
        split: option.splits)
qed

lemma where_matches_None: "where_matches (findAll_where None) p"
  by (simp add: where_matches_def findAll_where_def)

lemma full_window:
  assumes "int (length rows) \<le> L"
  shows "mset (fst (findAndCount wh 0 L cr rows)) = mset (filter wh rows)"
proof -
  from assms have "length rows \<le> nat L" by linarith
  with length_filter_le [of wh rows] have "length (filter wh rows) \<le> nat L"
    by (rule order_trans)
  then have "length (sort_key (\<lambda>r. - cr r) (filter wh rows)) \<le> nat L" by simp
  then show ?thesis
    by (simp add: findAndCount_def Let_def)
qed

text \<open>
  Claim C4, as the spec states it, fails twice on the seeded posts. A filter whose
  \<^verbatim>\<open>authorId\<close> is the empty string lists the post of author \<open>''2''\<close>, whose \<^verbatim>\<open>authorId\<close>
  is not empty; and the search term \<^verbatim>\<open>REST_vs\<close> lists the post titled
  \<^verbatim>\<open>REST vs GraphQL\<close>, which does not contain it (\<^verbatim>\<open>_\<close> is a wildcard of \<^verbatim>\<open>LIKE\<close>).
\<close>

theorem findAll_filter_counterexample:
  "post_rest \<in> set (pr_items (PostsService_findAll seed_store
       \<lparr>pgi_page = Some 1, pgi_limit = Some 10\<rparr>
       (Some \<lparr>pfi_searchTerm = None, pfi_published = None, pfi_authorId = Some ''''\<rparr>)))
   \<and> \<not> spec_filter \<lparr>pfi_searchTerm = None, pfi_published = None, pfi_authorId = Some ''''\<rparr>
         post_rest
   \<and> post_rest \<in> set (pr_items (PostsService_findAll seed_store
       \<lparr>pgi_page = Some 1, pgi_limit = Some 10\<rparr>
       (Some \<lparr>pfi_searchTerm = Some ''REST_vs'', pfi_published = None, pfi_authorId = None\<rparr>)))
   \<and> \<not> spec_filter \<lparr>pfi_searchTerm = Some ''REST_vs'', pfi_published = None, pfi_authorId = None\<rparr>
         post_rest"
proof -
  have a: "pr_items (PostsService_findAll seed_store
       \<lparr>pgi_page = Some 1, pgi_limit = Some 10\<rparr>
       (Some \<lparr>pfi_searchTerm = None, pfi_published = None, pfi_authorId = Some ''''\<rparr>)) =
       [post_rest, post_typescript, post_graphql]"
    by (simp add: PostsService_findAll_def findAndCount_def findAll_where_def where_matches_def
          truthy_def Let_def seed_store_def post_graphql_def post_typescript_def post_rest_def)
  have b: "\<not> spec_filter \<lparr>pfi_searchTerm = None, pfi_published = None, pfi_authorId = Some ''''\<rparr>
         post_rest"
    by (simp add: spec_filter_def post_rest_def)
  have c: "pr_items (PostsService_findAll seed_store
       \<lparr>pgi_page = Some 1, pgi_limit = Some 10\<rparr>
       (Some \<lparr>pfi_searchTerm = Some ''REST_vs'', pfi_published = None, pfi_authorId = None\<rparr>)) =
       [post_rest]"
    by (simp add: PostsService_findAll_def findAndCount_def findAll_where_def where_matches_def
          truthy_def Let_def seed_store_def post_graphql_def post_typescript_def post_rest_def)
  have "\<not> sublist ''REST_vs'' ''REST vs GraphQL''"
    by code_simp
  then have d: "\<not> spec_filter \<lparr>pfi_searchTerm = Some ''REST_vs'', pfi_published = None, pfi_authorId = None\<rparr>
         post_rest"
    by (simp add: spec_filter_def post_rest_def)
  from a b c d show ?thesis by simp
qed

text \<open>
  Claim C4, amended. For a filter whose search term, if present, has none of the
  characters \<^verbatim>\<open>%\<close>, \<^verbatim>\<open>_\<close> and backslash, \<^verbatim>\<open>findAll\<close> selects exactly the posts that
  satisfy the conjunction of: \<^verbatim>\<open>published\<close> equal to the flag (if present), \<^verbatim>\<open>authorId\<close>
  equal to the id (if present and not empty), and the title containing the search term as
  a case-sensitive substring (if present). \<open>total\<close> counts these posts, \<open>items\<close> holds
  only such posts, and holds each of them once when the first page is as long as the
  table. A filter without fields, and an absent filter, select every post.
\<close>

theorem filtered_listing:
  assumes "plain_search f"
  shows "where_matches (findAll_where (Some f)) p = guarded_filter f p
       \<and> pr_total (PostsService_findAll st pg (Some f)) =
           int (length (filter (guarded_filter f) (posts st)))
       \<and> set (pr_items (PostsService_findAll st pg (Some f))) \<subseteq>
           {p \<in> set (posts st). guarded_filter f p}
       \<and> (int (length (posts st)) \<le> L \<longrightarrow>
            mset (pr_items (PostsService_findAll st \<lparr>pgi_page = Some 1, pgi_limit = Some L\<rparr> (Some f))) =
            mset (filter (guarded_filter f) (posts st)))
       \<and> (pfi_searchTerm f = None \<and> pfi_published f = None \<and> pfi_authorId f = None \<longrightarrow>
            guarded_filter f p)
       \<and> pr_total (PostsService_findAll st pg None) = int (length (posts st))"
proof -
  have wh: "where_matches (findAll_where (Some f)) = guarded_filter f"
    using where_matches_guarded [OF assms] by (rule ext)
  have sel: "where_matches (findAll_where (Some f)) p = guarded_filter f p"
    by (simp add: wh)
  have tot: "pr_total (PostsService_findAll st pg (Some f)) =
           int (length (filter (guarded_filter f) (posts st)))"
    by (simp add: PostsService_findAll_shape Let_def total_findAndCount wh)
  have sub: "set (pr_items (PostsService_findAll st pg (Some f))) \<subseteq>
           {p \<in> set (posts st). guarded_filter f p}"
    using set_findAndCount [of "guarded_filter f" _ _ post_createdAt "posts st"]
    by (simp add: PostsService_findAll_shape Let_def wh)
  have all: "int (length (posts st)) \<le> L \<longrightarrow>
            mset (pr_items (PostsService_findAll st \<lparr>pgi_page = Some 1, pgi_limit = Some L\<rparr> (Some f))) =
            mset (filter (guarded_filter f) (posts st))"
    using full_window [of "posts st" L "guarded_filter f" post_createdAt]
    by (simp add: PostsService_findAll_shape Let_def wh)
  have empty: "pfi_searchTerm f = None \<and> pfi_published f = None \<and> pfi_authorId f = None \<longrightarrow>
            guarded_filter f p"
    by (simp add: guarded_filter_def)
  have none: "pr_total (PostsService_findAll st pg None) = int (length (posts st))"
    by (simp add: PostsService_findAll_shape Let_def total_findAndCount where_matches_None)
  from sel tot sub all empty none show ?thesis by blast
qed

theorem filtered_listing_witness:
  "plain_search \<lparr>pfi_searchTerm = Some ''GraphQL'', pfi_published = Some True, pfi_authorId = None\<rparr>
   \<and> int (length (posts seed_store)) \<le> 10
   \<and> mset (pr_items (PostsService_findAll seed_store \<lparr>pgi_page = Some 1, pgi_limit = Some 10\<rparr>
        (Some \<lparr>pfi_searchTerm = Some ''GraphQL'', pfi_published = Some True,
               pfi_authorId = None\<rparr>))) = mset [post_graphql]
   \<and> pr_total (PostsService_findAll seed_store \<lparr>pgi_page = Some 1, pgi_limit = Some 10\<rparr>
        (Some \<lparr>pfi_searchTerm = Some ''GraphQL'', pfi_published = Some True,
               pfi_authorId = None\<rparr>)) = 1
   \<and> plain_search \<lparr>pfi_searchTerm = None, pfi_published = None, pfi_authorId = None\<rparr>
   \<and> guarded_filter \<lparr>pfi_searchTerm = None, pfi_published = None, pfi_authorId = None\<rparr> post_rest"
proof -
  let ?f = "\<lparr>pfi_searchTerm = Some ''GraphQL'', pfi_published = Some True, pfi_authorId = None\<rparr>"
  let ?e = "\<lparr>pfi_searchTerm = None, pfi_published = None, pfi_authorId = None\<rparr>"
  let ?pg = "\<lparr>pgi_page = Some 1, pgi_limit = Some 10\<rparr>"
  have plain: "plain_search ?f"
    by (simp add: plain_search_def like_plain_def)
  have plain_e: "plain_search ?e"
    by (simp add: plain_search_def)
  have small: "int (length (posts seed_store)) \<le> 10"
    by (simp add: seed_store_def)
  have "sublist ''GraphQL'' ''Getting Started with GraphQL''"
    by code_simp
  then have sel: "filter (guarded_filter ?f) (posts seed_store) = [post_graphql]"
    by (simp add: guarded_filter_def seed_store_def post_graphql_def post_typescript_def
          post_rest_def)
  from filtered_listing [OF plain, of undefined seed_store ?pg 10]
       filtered_listing [OF plain_e, of post_rest seed_store ?pg 10]
       plain plain_e small sel
  show ?thesis by simp
qed

lemma findAll_where_empty_authorId:
  "findAll_where (Some (f\<lparr>pfi_authorId := Some []\<rparr>)) =
   findAll_where (Some (f\<lparr>pfi_authorId := None\<rparr>))"
  by (simp add: findAll_where_def truthy_def)

lemma findAll_where_empty_searchTerm:
  "findAll_where (Some (f\<lparr>pfi_searchTerm := Some []\<rparr>)) =
   findAll_where (Some (f\<lparr>pfi_searchTerm := None\<rparr>))"
  by (simp add: findAll_where_def truthy_def)

text \<open>
  Claim C10. In \<^verbatim>\<open>findAll\<close> a filter whose \<^verbatim>\<open>authorId\<close> is the empty string gives the
  listing of the same filter without \<^verbatim>\<open>authorId\<close>, and likewise for an empty
  \<^verbatim>\<open>searchTerm\<close>; but \<^verbatim>\<open>published: false\<close> is a condition: a post is selected exactly
  when it is unpublished and the rest of the filter selects it, so every listed post is
  unpublished.
\<close>

theorem falsy_filter_fields:
  "PostsService_findAll st pg (Some (f\<lparr>pfi_authorId := Some []\<rparr>)) =
     PostsService_findAll st pg (Some (f\<lparr>pfi_authorId := None\<rparr>))
   \<and> PostsService_findAll st pg (Some (f\<lparr>pfi_searchTerm := Some []\<rparr>)) =
     PostsService_findAll st pg (Some (f\<lparr>pfi_searchTerm := None\<rparr>))
   \<and> (pfi_published f = Some False \<longrightarrow>
        where_matches (findAll_where (Some f)) p =
          (post_published p = False \<and>
           where_matches (findAll_where (Some (f\<lparr>pfi_published := None\<rparr>))) p))
   \<and> (pfi_published f = Some False \<longrightarrow>
        (\<forall>q \<in> set (pr_items (PostsService_findAll st pg (Some f))). post_published q = False))"
proof -
  have a: "PostsService_findAll st pg (Some (f\<lparr>pfi_authorId := Some []\<rparr>)) =
     PostsService_findAll st pg (Some (f\<lparr>pfi_authorId := None\<rparr>))"
    by (simp only: PostsService_findAll_def findAll_where_empty_authorId)
  have s: "PostsService_findAll st pg (Some (f\<lparr>pfi_searchTerm := Some []\<rparr>)) =
     PostsService_findAll st pg (Some (f\<lparr>pfi_searchTerm := None\<rparr>))"
    by (simp only: PostsService_findAll_def findAll_where_empty_searchTerm)
  have m: "where_matches (findAll_where (Some f)) q =
          (post_published q = False \<and>
           where_matches (findAll_where (Some (f\<lparr>pfi_published := None\<rparr>))) q)"
    if "pfi_published f = Some False" for q
    using that by (simp add: where_matches_def findAll_where_def)
  have i: "\<forall>q \<in> set (pr_items (PostsService_findAll st pg (Some f))). post_published q = False"
    if "pfi_published f = Some False"
  proof
    fix q
    assume "q \<in> set (pr_items (PostsService_findAll st pg (Some f)))"
    then have "q \<in> {r \<in> set (posts st). where_matches (findAll_where (Some f)) r}"
      using set_findAndCount [of "where_matches (findAll_where (Some f))" _ _ post_createdAt "posts st"]
      by (auto simp: PostsService_findAll_shape Let_def)
    with m [OF that] show "post_published q = False" by simp
  qed
  from a s m i show ?thesis by blast
qed

theorem falsy_filter_fields_witness:
  "pr_items (PostsService_findAll seed_store \<lparr>pgi_page = None, pgi_limit = None\<rparr>
      (Some \<lparr>pfi_searchTerm = Some [], pfi_published = None, pfi_authorId = Some []\<rparr>)) =
     [post_rest, post_typescript, post_graphql]
   \<and> pfi_published \<lparr>pfi_searchTerm = None, pfi_published = Some False, pfi_authorId = None\<rparr> =
       Some False
   \<and> pr_items (PostsService_findAll seed_store \<lparr>pgi_page = None, pgi_limit = None\<rparr>
      (Some \<lparr>pfi_searchTerm = None, pfi_published = Some False, pfi_authorId = None\<rparr>)) =
     [post_rest, post_typescript]
   \<and> post_published post_rest = False \<and> post_published post_typescript = False"
proof -
  let ?pg = "\<lparr>pgi_page = None, pgi_limit = None\<rparr>"
  let ?none = "\<lparr>pfi_searchTerm = None, pfi_published = None, pfi_authorId = None\<rparr>"
  let ?unpub = "\<lparr>pfi_searchTerm = None, pfi_published = Some False, pfi_authorId = None\<rparr>"
  have all: "pr_items (PostsService_findAll seed_store ?pg (Some ?none)) =
      [post_rest, post_typescript, post_graphql]"
    by (simp add: PostsService_findAll_def findAndCount_def findAll_where_def where_matches_def
          truthy_def Let_def seed_store_def post_graphql_def post_typescript_def post_rest_def)
  have unpub: "pr_items (PostsService_findAll seed_store ?pg (Some ?unpub)) =
      [post_rest, post_typescript]"
    by (simp add: PostsService_findAll_def findAndCount_def findAll_where_def where_matches_def
          truthy_def Let_def seed_store_def post_graphql_def post_typescript_def post_rest_def)
  from falsy_filter_fields [of seed_store ?pg "?none\<lparr>pfi_searchTerm := Some []\<rparr>" undefined]
       falsy_filter_fields [of seed_store ?pg ?none undefined]
       falsy_filter_fields [of seed_store ?pg ?unpub undefined]
       all unpub
  show ?thesis by simp
qed

end
